theory Spec2Isabelle
  imports Main "HOL-Library.AList"
begin

section \<open>Data model of src/server/sipService.ts\<close>

text \<open>
  The SIP service is a class whose methods mutate its fields, the call objects held in
  \<open>activeCalls\<close> and two module-level variables. The model passes this state explicitly.
  Wall-clock readings (\<open>new Date()\<close>, \<open>Date.now()\<close>) and fresh identifiers
  (\<open>randomUUID()\<close>) are parameters of the operation that takes them.
\<close>

datatype CallStatus = Initiating | Ringing | Answered | Ended | Failed

datatype Transport = TCP | UDP

text \<open>A name-addr header value: \<open>{ uri, params: { tag } }\<close>.\<close>

record NameAddr =
  uri :: string
  tag :: "string option"

record Via =
  via_version :: string
  via_protocol :: string
  via_host :: string
  via_port :: nat
  via_branch :: string

record CSeq =
  cseq_method :: string
  cseq_seq :: int

record Contact =
  contact_uri :: string

text \<open>
  The headers the service reads and writes. A message handed over by the transport
  library carries To, From, Call-ID and CSeq; Contact and Via are lists (absent = empty).
\<close>

record Headers =
  h_to :: NameAddr
  h_from :: NameAddr
  h_call_id :: string
  h_cseq :: CSeq
  h_contact :: "Contact list"
  h_content_type :: "string option"
  h_expires :: "nat option"
  h_via :: "Via list"
  h_authorization :: "string option"

text \<open>
  One object type serves requests (\<open>method\<close>, \<open>uri\<close>) and responses (\<open>status\<close>,
  \<open>reason\<close>); the reply to an inbound BYE carries both a method and a status.
\<close>

record SIPMessage =
  m_method :: "string option"
  m_uri :: "string option"
  m_status :: "nat option"
  m_reason :: "string option"
  m_headers :: Headers
  m_content :: "string option"

record SIPDialog =
  local_id :: NameAddr
  remote :: NameAddr
  routeSet :: "string list"
  cseq :: int
  inviteRequest :: "SIPMessage option"
  lastResponse :: "SIPMessage option"

record SIPCall =
  callId :: string
  toNumber :: string
  fromNumber :: string
  dialog :: "SIPDialog option"
  status :: CallStatus
  startTime :: nat
  endTime :: "nat option"
  error :: "string option"

text \<open>
  \<open>authSession\<close> starts as the empty object. The service stores the REGISTER dialog's
  call-id, tag and sequence number in it; the digest helper keeps its realm/nonce material
  in the same object, modelled as a list of properties the service never reads.
\<close>

type_synonym DigestCtx = "(string \<times> string) list"

record AuthSession =
  as_callId :: "string option"
  as_tag :: "string option"
  as_cseq :: "int option"
  as_digest :: DigestCtx

text \<open>
  The digest helper (package \<open>sip/digest.js\<close>) is not part of the repository; it is a
  parameter. \<open>challenge\<close> updates the helper's material from a 401/407 response;
  \<open>signRequest\<close> updates it again and yields the Authorization header that is spliced
  into the request. \<open>Inl e\<close> is the helper throwing, \<open>e\<close> being the thrown value as text.
\<close>

record DigestHelper =
  challenge :: "DigestCtx \<Rightarrow> SIPMessage \<Rightarrow> string + DigestCtx"
  signRequest :: "DigestCtx \<Rightarrow> SIPMessage \<Rightarrow> string \<times> string \<Rightarrow> string + (DigestCtx \<times> string)"

text \<open>
  A promise of the runtime: settling a promise that is no longer pending leaves its state
  alone. \<open>p_calls\<close> logs every call of its resolve and reject functions.
\<close>

datatype PromiseState = Pending | Fulfilled | Rejected string

datatype SettleCall = ResolveCall | RejectCall string

record Promise =
  p_state :: PromiseState
  p_calls :: "SettleCall list"

definition resolvePromise :: "Promise \<Rightarrow> Promise" where
  "resolvePromise p =
     p\<lparr>p_state := (if p_state p = Pending then Fulfilled else p_state p),
       p_calls := p_calls p @ [ResolveCall]\<rparr>"

definition rejectPromise :: "string \<Rightarrow> Promise \<Rightarrow> Promise" where
  "rejectPromise e p =
     p\<lparr>p_state := (if p_state p = Pending then Rejected e else p_state p),
       p_calls := p_calls p @ [RejectCall e]\<rparr>"

text \<open>
  The fields of class \<open>SIPService\<close>, followed by the module-level state it shares:
  \<open>globalSipStarted\<close>; whether \<open>typeof sip.send === 'function'\<close>; the promises created so
  far (\<open>registrationResolve\<close> and \<open>registrationReject\<close> hold the index of the promise whose
  functions they are); the armed registration timers, each with the promise its closure
  captured and its delay in milliseconds; and the log of messages handed to \<open>sip.send\<close>.
  \<open>activeCalls\<close> is a JavaScript Map: an association list in insertion order.
\<close>

record SIPService =
  initialized :: bool
  activeCalls :: "(string \<times> SIPCall) list"
  sipUsername :: string
  sipPassword :: string
  sipServer :: string
  sipPort :: nat
  localIP :: string
  publicIP :: string
  fromNumber_cfg :: string
  authSession :: AuthSession
  registered :: bool
  clientPort :: nat
  transport :: Transport
  registrationPromise :: "nat option"
  registrationResolve :: "nat option"
  registrationReject :: "nat option"
  registrationAttempts :: nat
  maxRegistrationAttempts :: nat
  globalSipStarted :: bool
  sipSendAvailable :: bool
  promises :: "Promise list"
  timers :: "(nat \<times> nat) list"
  sent :: "SIPMessage list"

text \<open>
  The process environment as \<open>initialize\<close> and the timer read it. The addresses are what
  \<open>configureIpAddresses\<close> settles on and the port is \<open>FALEVONO_SIP_PORT\<close> parsed (7060
  when unset): address discovery and parsing are outside the signalling core.
\<close>

record Env =
  NODE_ENV :: "string option"
  SIP_USE_TCP :: "string option"
  FALEVONO_SIP_PORT :: nat
  configuredLocalIP :: string
  configuredPublicIP :: string

text \<open>What \<open>sip.start\<close> and the wait for \<open>sip.send\<close> come to: it throws, or it returns
  and \<open>sip.send\<close> is a function or not after the polling.\<close>

datatype StartResult = StartThrows string | StartReturns bool

section \<open>Helpers\<close>

fun string_of_nat :: "nat \<Rightarrow> string" where
  "string_of_nat n =
     (if n < 10 then [''0123456789'' ! n]
      else string_of_nat (n div 10) @ [''0123456789'' ! (n mod 10)])"

declare string_of_nat.simps [simp del]

definition CRLF :: string where
  "CRLF = [CHR 0x0D, CHR 0x0A]"

definition getSignalingHost :: "SIPService \<Rightarrow> string" where
  "getSignalingHost s = (if publicIP s \<noteq> [] then publicIP s else localIP s)"

definition contactUriOf :: "SIPService \<Rightarrow> string" where
  "contactUriOf s =
     (if transport s = TCP
      then ''sip:'' @ sipUsername s @ ''@'' @ getSignalingHost s @ '':''
             @ string_of_nat (clientPort s) @ '';transport=tcp''
      else ''sip:'' @ sipUsername s @ ''@'' @ getSignalingHost s @ '':''
             @ string_of_nat (clientPort s))"

text \<open>\<open>headers.contact?.[0]?.uri || fallback\<close>: the first contact's URI unless there is
  none or it is the empty string.\<close>

definition firstContactUriOr :: "Contact list \<Rightarrow> string \<Rightarrow> string" where
  "firstContactUriOr cs fallback =
     (case cs of
        [] \<Rightarrow> fallback
      | c # _ \<Rightarrow> if contact_uri c \<noteq> [] then contact_uri c else fallback)"

text \<open>\<open>sip.send(message, callback)\<close> where the code has checked that it is a function.\<close>

definition sipSend :: "SIPMessage \<Rightarrow> SIPService \<Rightarrow> SIPService" where
  "sipSend m s = s\<lparr>sent := sent s @ [m]\<rparr>"

definition createSDP :: "nat \<Rightarrow> SIPService \<Rightarrow> string" where
  "createSDP now s =
     ''v=0'' @ CRLF
     @ ''o=- '' @ string_of_nat now @ '' 1 IN IP4 '' @ getSignalingHost s @ CRLF
     @ ''s=Abmix Call'' @ CRLF
     @ ''c=IN IP4 '' @ getSignalingHost s @ CRLF
     @ ''t=0 0'' @ CRLF
     @ ''m=audio 8000 RTP/AVP 0 8 101'' @ CRLF
     @ ''a=rtpmap:0 PCMU/8000'' @ CRLF
     @ ''a=rtpmap:8 PCMA/8000'' @ CRLF
     @ ''a=rtpmap:101 telephone-event/8000'' @ CRLF
     @ ''a=sendrecv'' @ CRLF"

section \<open>Registration\<close>

definition registerRequestOf :: "SIPService \<Rightarrow> string \<Rightarrow> string \<Rightarrow> int \<Rightarrow> SIPMessage" where
  "registerRequestOf s cid tg sq =
     \<lparr>m_method = Some ''REGISTER'',
      m_uri = Some (''sip:'' @ sipServer s @ '':'' @ string_of_nat (sipPort s)),
      m_status = None,
      m_reason = None,
      m_headers =
        \<lparr>h_to = \<lparr>uri = ''sip:'' @ sipUsername s @ ''@'' @ sipServer s, tag = None\<rparr>,
         h_from = \<lparr>uri = ''sip:'' @ sipUsername s @ ''@'' @ sipServer s, tag = Some tg\<rparr>,
         h_call_id = cid,
         h_cseq = \<lparr>cseq_method = ''REGISTER'', cseq_seq = sq\<rparr>,
         h_contact = [\<lparr>contact_uri = contactUriOf s\<rparr>],
         h_content_type = None,
         h_expires = Some 3600,
         h_via = [],
         h_authorization = None\<rparr>,
      m_content = None\<rparr>"

definition withAuthorization :: "string \<Rightarrow> SIPMessage \<Rightarrow> SIPMessage" where
  "withAuthorization a m = m\<lparr>m_headers := (m_headers m)\<lparr>h_authorization := Some a\<rparr>\<rparr>"

text \<open>
  \<open>register(authChallenge?)\<close>. A fresh attempt counts; a re-registration after a
  challenge does not. The sequence number is one more than the session's on every call.
  Everything after the session update sits in a try block whose handler only logs: when the
  helper throws or \<open>sip.send\<close> is not a function, nothing is sent and the call returns.
\<close>

definition register ::
    "DigestHelper \<Rightarrow> SIPMessage option \<Rightarrow> string \<Rightarrow> string \<Rightarrow> SIPService \<Rightarrow> SIPService" where
  "register dg authChallenge uuid1 uuid2 s0 =
     (let isReregister = (authChallenge \<noteq> None);
          s1 = (if \<not> isReregister
                then s0\<lparr>registrationAttempts := registrationAttempts s0 + 1\<rparr> else s0);
          cid = (case as_callId (authSession s1) of
                   None \<Rightarrow> uuid1 | Some c \<Rightarrow> if c \<noteq> [] then c else uuid1);
          tg = (case as_tag (authSession s1) of
                  None \<Rightarrow> uuid2 | Some t \<Rightarrow> if t \<noteq> [] then t else uuid2);
          sq = (case as_cseq (authSession s1) of None \<Rightarrow> 0 | Some n \<Rightarrow> n) + 1;
          s2 = s1\<lparr>authSession :=
                    (authSession s1)\<lparr>as_callId := Some cid, as_tag := Some tg, as_cseq := Some sq\<rparr>\<rparr>;
          registerRequest = registerRequestOf s2 cid tg sq
      in case authChallenge of
           None \<Rightarrow>
             if sipSendAvailable s2 then sipSend registerRequest s2 else s2
         | Some _ \<Rightarrow>
             (case signRequest dg (as_digest (authSession s2)) registerRequest
                     (sipUsername s2, sipPassword s2) of
                Inl _ \<Rightarrow> s2
              | Inr (ctx, a) \<Rightarrow>
                  (let s3 = s2\<lparr>authSession := (authSession s2)\<lparr>as_digest := ctx\<rparr>\<rparr>
                   in if sipSendAvailable s3
                      then sipSend (withAuthorization a registerRequest) s3 else s3)))"

definition developmentGuidance :: string where
  "developmentGuidance =
     [CHR 0x0A, CHR 0x0A, CHR 0xE2, CHR 0x9A, CHR 0xA0, CHR 0xEF, CHR 0xB8, CHR 0x8F]
     @ ''  REPLIT LIMITATION: UDP ports are blocked in development.'' @ [CHR 0x0A]
     @ ''Solutions:'' @ [CHR 0x0A]
     @ ''1. Set SIP_USE_TCP=true to try TCP (may not work with all providers)'' @ [CHR 0x0A]
     @ ''2. Deploy to production (EasyPanel/VPS) where UDP works'' @ [CHR 0x0A]
     @ ''3. Test locally with Docker'' @ [CHR 0x0A]"

definition productionGuidance :: string where
  "productionGuidance =
     [CHR 0x0A, CHR 0x0A, CHR 0xF0, CHR 0x9F, CHR 0x94, CHR 0xA7]
     @ '' PRODUCTION TROUBLESHOOTING:'' @ [CHR 0x0A]
     @ ''1. Check if UDP port 5060 is accessible from EasyPanel'' @ [CHR 0x0A]
     @ ''2. Verify FALEVONO_PASSWORD is correct'' @ [CHR 0x0A]
     @ ''3. Try TCP fallback: Set SIP_USE_TCP=true'' @ [CHR 0x0A]
     @ ''4. Check if SIP server vono2.me:5060 is reachable'' @ [CHR 0x0A]
     @ ''5. Check network connectivity to vono2.me'' @ [CHR 0x0A]"

text \<open>The timer's error message; \<open>timeout\<close> is one of the four delays of \<open>initialize\<close>,
  all whole seconds.\<close>

definition timeoutMessage :: "Env \<Rightarrow> nat \<Rightarrow> nat \<Rightarrow> string" where
  "timeoutMessage env timeout attempts =
     (let e = (case NODE_ENV env of
                 None \<Rightarrow> ''production'' | Some v \<Rightarrow> if v \<noteq> [] then v else ''production'');
          errorMsg = ''SIP registration timeout after '' @ string_of_nat (timeout div 1000)
                     @ '' seconds ('' @ string_of_nat attempts @ '' attempts)''
      in if e = ''development'' then errorMsg @ developmentGuidance
         else errorMsg @ productionGuidance)"

text \<open>
  The callback of the timer that \<open>initialize\<close> arms; \<open>pid\<close> is the promise whose
  \<open>reject\<close> the closure captured. \<open>register\<close> never throws, so the retry branch always
  returns before the rejection.
\<close>

definition registrationTimeout ::
    "DigestHelper \<Rightarrow> Env \<Rightarrow> nat \<Rightarrow> nat \<Rightarrow> string \<Rightarrow> string \<Rightarrow> SIPService \<Rightarrow> SIPService" where
  "registrationTimeout dg env pid timeout uuid1 uuid2 s =
     (if \<not> registered s then
        if registrationAttempts s < maxRegistrationAttempts s
        then register dg None uuid1 uuid2 s
        else s\<lparr>promises := (promises s)
                  [pid := rejectPromise (timeoutMessage env timeout (registrationAttempts s))
                            (promises s ! pid)]\<rparr>
      else s)"

text \<open>The \<open>k\<close>-th armed timer fires (a timer fires once).\<close>

definition fireTimer ::
    "DigestHelper \<Rightarrow> Env \<Rightarrow> nat \<Rightarrow> string \<Rightarrow> string \<Rightarrow> SIPService \<Rightarrow> SIPService" where
  "fireTimer dg env k uuid1 uuid2 s =
     (if k < length (timers s)
      then (case timers s ! k of
              (pid, timeout) \<Rightarrow>
                registrationTimeout dg env pid timeout uuid1 uuid2
                  (s\<lparr>timers := take k (timers s) @ drop (Suc k) (timers s)\<rparr>))
      else s)"

text \<open>
  \<open>initialize()\<close>, run to completion. The result is the thrown error, if any, and the
  state left behind.
\<close>

definition createRegistrationPromise ::
    "DigestHelper \<Rightarrow> Env \<Rightarrow> bool \<Rightarrow> string \<Rightarrow> string \<Rightarrow> SIPService \<Rightarrow> SIPService" where
  "createRegistrationPromise dg env useTCP uuid1 uuid2 s =
     (let s1 = s\<lparr>initialized := True\<rparr>;
          pid = length (promises s1);
          isProduction = (NODE_ENV env = Some ''production'');
          timeout = (if isProduction then (if useTCP then 30000 else 20000)
                     else (if useTCP then 15000 else 10000));
          s2 = s1\<lparr>registrationPromise := Some pid,
                  registrationResolve := Some pid,
                  registrationReject := Some pid,
                  promises := promises s1 @ [\<lparr>p_state = Pending, p_calls = []\<rparr>],
                  timers := timers s1 @ [(pid, timeout)]\<rparr>
      in register dg None uuid1 uuid2 s2)"

definition initialize ::
    "DigestHelper \<Rightarrow> Env \<Rightarrow> StartResult \<Rightarrow> string \<Rightarrow> string \<Rightarrow> SIPService
       \<Rightarrow> string option \<times> SIPService" where
  "initialize dg env start uuid1 uuid2 s =
     (if initialized s then (None, s)
      else
        (let useTCP = (SIP_USE_TCP env = Some ''true'' \<or> NODE_ENV env = Some ''development'');
             s1 = s\<lparr>localIP := configuredLocalIP env,
                    publicIP := configuredPublicIP env,
                    clientPort := FALEVONO_SIP_PORT env,
                    transport := (if useTCP then TCP else UDP)\<rparr>
         in if \<not> globalSipStarted s1 then
              (case start of
                 StartThrows e \<Rightarrow> (Some (''Failed to initialize SIP stack: '' @ e), s1)
               | StartReturns ok \<Rightarrow>
                   if \<not> ok
                   then (Some (''Failed to initialize SIP stack: ''
                               @ ''SIP stack failed to initialize properly - sip.send not available''),
                         s1\<lparr>sipSendAvailable := False\<rparr>)
                   else (None, createRegistrationPromise dg env useTCP uuid1 uuid2
                                 (s1\<lparr>sipSendAvailable := True, globalSipStarted := True\<rparr>)))
            else if \<not> sipSendAvailable s1
            then (Some ''SIP stack corrupted - sip.send not available'',
                  s1\<lparr>globalSipStarted := False\<rparr>)
            else (None, createRegistrationPromise dg env useTCP uuid1 uuid2 s1)))"

text \<open>The branch of \<open>handleIncomingMessage\<close> for a response whose CSeq method is REGISTER.
  When \<open>digest.challenge\<close> throws, the exception leaves the handler before \<open>register\<close>.\<close>

definition handleRegisterResponse ::
    "DigestHelper \<Rightarrow> string \<Rightarrow> string \<Rightarrow> SIPMessage \<Rightarrow> nat \<Rightarrow> SIPService \<Rightarrow> SIPService" where
  "handleRegisterResponse dg uuid1 uuid2 message st s =
     (if st = 401 \<or> st = 407 then
        (case challenge dg (as_digest (authSession s)) message of
           Inl _ \<Rightarrow> s
         | Inr ctx \<Rightarrow>
             register dg (Some message) uuid1 uuid2
               (s\<lparr>authSession := (authSession s)\<lparr>as_digest := ctx\<rparr>\<rparr>))
      else if st = 200 then
        (let s1 = s\<lparr>registered := True\<rparr>
         in case registrationResolve s1 of
              None \<Rightarrow> s1
            | Some pid \<Rightarrow>
                s1\<lparr>promises := (promises s1)[pid := resolvePromise (promises s1 ! pid)],
                   registrationResolve := None,
                   registrationReject := None\<rparr>)
      else
        (case registrationReject s of
           None \<Rightarrow> s
         | Some pid \<Rightarrow>
             s\<lparr>promises := (promises s)
                  [pid := rejectPromise (''Registration failed with status '' @ string_of_nat st)
                            (promises s ! pid)],
               registrationResolve := None,
               registrationReject := None\<rparr>))"

section \<open>Call lifecycle\<close>

text \<open>How an asynchronous operation ends: it returns, it throws, or it is suspended at an
  \<open>await\<close> on a promise that is still pending.\<close>

datatype 'a Outcome = Returned 'a | Threw string | Awaiting

definition isDigit :: "char \<Rightarrow> bool" where
  "isDigit c = (c \<in> set ''0123456789'')"

definition inviteRequestOf ::
    "SIPService \<Rightarrow> string \<Rightarrow> string \<Rightarrow> string \<Rightarrow> string \<Rightarrow> nat \<Rightarrow> SIPMessage" where
  "inviteRequestOf s cid tg branch cleanNumber now =
     \<lparr>m_method = Some ''INVITE'',
      m_uri = Some (''sip:'' @ cleanNumber @ ''@'' @ sipServer s @ '':'' @ string_of_nat (sipPort s)),
      m_status = None,
      m_reason = None,
      m_headers =
        \<lparr>h_to = \<lparr>uri = ''sip:'' @ cleanNumber @ ''@'' @ sipServer s, tag = None\<rparr>,
         h_from = \<lparr>uri = ''sip:'' @ sipUsername s @ ''@'' @ sipServer s, tag = Some tg\<rparr>,
         h_call_id = cid,
         h_cseq = \<lparr>cseq_method = ''INVITE'', cseq_seq = 1\<rparr>,
         h_contact = [\<lparr>contact_uri = contactUriOf s\<rparr>],
         h_content_type = Some ''application/sdp'',
         h_expires = None,
         h_via = [\<lparr>via_version = ''2.0'',
                   via_protocol = (if transport s = TCP then ''TCP'' else ''UDP''),
                   via_host = getSignalingHost s,
                   via_port = clientPort s,
                   via_branch = branch\<rparr>],
         h_authorization = None\<rparr>,
      m_content = Some (createSDP now s)\<rparr>"

text \<open>The call record \<open>makeCall\<close> stores, and the same record once its dialog is set.\<close>

definition newCall :: "SIPService \<Rightarrow> string \<Rightarrow> string \<Rightarrow> nat \<Rightarrow> SIPCall" where
  "newCall s cid cleanNumber now =
     \<lparr>callId = cid, toNumber = cleanNumber, fromNumber = fromNumber_cfg s, dialog = None,
      status = Initiating, startTime = now, endTime = None, error = None\<rparr>"

definition withDialog :: "SIPMessage \<Rightarrow> SIPCall \<Rightarrow> SIPCall" where
  "withDialog invite call =
     (case dialog call of
        None \<Rightarrow>
          call\<lparr>dialog := Some \<lparr>local_id = h_from (m_headers invite),
                                remote = h_to (m_headers invite),
                                routeSet = [],
                                cseq = 1,
                                inviteRequest = Some invite,
                                lastResponse = None\<rparr>\<rparr>
      | Some _ \<Rightarrow> call)"

text \<open>\<open>makeCall\<close> from the point where the call identifiers are drawn.\<close>

definition startCall ::
    "string \<Rightarrow> string \<Rightarrow> string \<Rightarrow> nat \<Rightarrow> string \<Rightarrow> SIPService \<Rightarrow> string Outcome \<times> SIPService" where
  "startCall cid tg branch now dest s =
     (let cleanNumber = filter isDigit dest;
          invite = inviteRequestOf s cid tg branch cleanNumber now;
          call = withDialog invite (newCall s cid cleanNumber now)
      in if \<not> sipSendAvailable s then
           (Threw ''SIP stack not properly initialized - sip.send not available'',
            s\<lparr>activeCalls :=
                 AList.update cid
                   (call\<lparr>status := Failed,
                         error := Some ''Error: SIP stack not properly initialized - sip.send not available'',
                         endTime := Some now\<rparr>)
                   (activeCalls s)\<rparr>)
         else (Returned cid, sipSend invite (s\<lparr>activeCalls := AList.update cid call (activeCalls s)\<rparr>)))"

text \<open>
  \<open>makeCall(toNumber)\<close>. \<open>Awaiting\<close> is the caller suspended on the registration promise;
  nothing has been sent and no call exists then.
\<close>

definition makeCall ::
    "DigestHelper \<Rightarrow> Env \<Rightarrow> StartResult \<Rightarrow> string \<Rightarrow> string \<Rightarrow> string \<Rightarrow> string \<Rightarrow> string
       \<Rightarrow> nat \<Rightarrow> string \<Rightarrow> SIPService \<Rightarrow> string Outcome \<times> SIPService" where
  "makeCall dg env start uuid1 uuid2 cid tg branch now dest s =
     (case (if \<not> initialized s then initialize dg env start uuid1 uuid2 s else (None, s)) of
        (Some e, s1) \<Rightarrow> (Threw e, s1)
      | (None, s1) \<Rightarrow>
          if \<not> registered s1 then
            (case registrationPromise s1 of
               None \<Rightarrow> startCall cid tg branch now dest s1
             | Some pid \<Rightarrow>
                 (case p_state (promises s1 ! pid) of
                    Pending \<Rightarrow> (Awaiting, s1)
                  | Fulfilled \<Rightarrow> startCall cid tg branch now dest s1
                  | Rejected e \<Rightarrow> (Threw (''Cannot make call: '' @ e), s1)))
          else startCall cid tg branch now dest s1)"

text \<open>The completion callback given to \<open>sip.send\<close> with an INVITE, by \<open>makeCall\<close> and by
  \<open>reInviteWithAuth\<close> alike; \<open>Some e\<close> is a transport error.\<close>

definition inviteSendCallback :: "string option \<Rightarrow> nat \<Rightarrow> SIPCall \<Rightarrow> SIPCall" where
  "inviteSendCallback err now call =
     (case err of
        Some e \<Rightarrow> call\<lparr>status := Failed, error := Some e, endTime := Some now\<rparr>
      | None \<Rightarrow> call\<lparr>status := Ringing\<rparr>)"

definition onInviteSent :: "string \<Rightarrow> string option \<Rightarrow> nat \<Rightarrow> SIPService \<Rightarrow> SIPService" where
  "onInviteSent cid err now s =
     (case map_of (activeCalls s) cid of
        None \<Rightarrow> s
      | Some call \<Rightarrow>
          s\<lparr>activeCalls := AList.update cid (inviteSendCallback err now call) (activeCalls s)\<rparr>)"

definition withCSeqSeq :: "int \<Rightarrow> SIPMessage \<Rightarrow> SIPMessage" where
  "withCSeqSeq n m =
     m\<lparr>m_headers := (m_headers m)\<lparr>h_cseq := (h_cseq (m_headers m))\<lparr>cseq_seq := n\<rparr>\<rparr>\<rparr>"

text \<open>
  \<open>reInviteWithAuth(call, authResponse)\<close>: the call as left behind and the messages handed
  to \<open>sip.send\<close>. The service argument is read only (credentials, \<open>sip.send\<close>).
\<close>

definition reInviteWithAuth ::
    "DigestHelper \<Rightarrow> SIPService \<Rightarrow> nat \<Rightarrow> SIPCall \<Rightarrow> SIPMessage \<Rightarrow> SIPCall \<times> SIPMessage list" where
  "reInviteWithAuth dg s now call authResponse =
     (let noInvite = (call\<lparr>status := Failed,
                           error := Some ''Cannot re-authenticate without original INVITE'',
                           endTime := Some now\<rparr>, [])
      in case dialog call of
           None \<Rightarrow> noInvite
         | Some d \<Rightarrow>
             (case inviteRequest d of
                None \<Rightarrow> noInvite
              | Some invite \<Rightarrow>
                  (case challenge dg [] authResponse of
                     Inl e \<Rightarrow>
                       (call\<lparr>status := Failed,
                             error := Some (''Authentication failed: '' @ e),
                             endTime := Some now\<rparr>, [])
                   | Inr ctx \<Rightarrow>
                       (let d1 = d\<lparr>cseq := cseq d + 1\<rparr>;
                            reInviteRequest = withCSeqSeq (cseq d1) invite
                        in case signRequest dg ctx reInviteRequest (sipUsername s, sipPassword s) of
                             Inl e \<Rightarrow>
                               (call\<lparr>dialog := Some d1,
                                     status := Failed,
                                     error := Some (''Authentication failed: '' @ e),
                                     endTime := Some now\<rparr>, [])
                           | Inr (ctx', a) \<Rightarrow>
                               (let signed = withAuthorization a reInviteRequest;
                                    call1 = call\<lparr>dialog := Some (d1\<lparr>inviteRequest := Some signed\<rparr>)\<rparr>
                                in if \<not> sipSendAvailable s then
                                     (call1\<lparr>status := Failed,
                                            error := Some ''SIP stack not properly initialized - sip.send not available'',
                                            endTime := Some now\<rparr>, [])
                                   else (call1, [signed]))))))"

text \<open>
  \<open>sendAck(call, inviteResponse)\<close>: the messages handed to \<open>sip.send\<close>. The whole body is
  in a try block whose handler only logs: a dialog without a stored INVITE (a property
  read on null) or a missing \<open>sip.send\<close> sends nothing.
\<close>

definition ackRequestOf :: "SIPCall \<Rightarrow> SIPMessage \<Rightarrow> Via list \<Rightarrow> SIPMessage" where
  "ackRequestOf call inviteResponse via =
     \<lparr>m_method = Some ''ACK'',
      m_uri = Some (firstContactUriOr (h_contact (m_headers inviteResponse))
                      (uri (h_from (m_headers inviteResponse)))),
      m_status = None,
      m_reason = None,
      m_headers =
        \<lparr>h_to = h_to (m_headers inviteResponse),
         h_from = h_from (m_headers inviteResponse),
         h_call_id = callId call,
         h_cseq = \<lparr>cseq_method = ''ACK'', cseq_seq = cseq_seq (h_cseq (m_headers inviteResponse))\<rparr>,
         h_contact = [],
         h_content_type = None,
         h_expires = None,
         h_via = via,
         h_authorization = None\<rparr>,
      m_content = None\<rparr>"

definition sendAck :: "SIPService \<Rightarrow> SIPCall \<Rightarrow> SIPMessage \<Rightarrow> SIPMessage list" where
  "sendAck s call inviteResponse =
     (case (case dialog call of
              None \<Rightarrow> Some (h_via (m_headers inviteResponse))
            | Some d \<Rightarrow>
                (case inviteRequest d of
                   None \<Rightarrow> None
                 | Some invite \<Rightarrow> Some (h_via (m_headers invite)))) of
        None \<Rightarrow> []
      | Some via \<Rightarrow>
          if sipSendAvailable s then [ackRequestOf call inviteResponse via] else [])"

text \<open>The \<open>switch (message.status)\<close> of \<open>handleIncomingMessage\<close>, for the call the
  response's Call-ID names: the call as left behind and the messages sent.\<close>

definition handleCallResponse ::
    "DigestHelper \<Rightarrow> SIPService \<Rightarrow> nat \<Rightarrow> SIPMessage \<Rightarrow> nat \<Rightarrow> SIPCall \<Rightarrow> SIPCall \<times> SIPMessage list" where
  "handleCallResponse dg s now message st call =
     (if st = 100 then (call, [])
      else if st = 180 \<or> st = 183 then (call\<lparr>status := Ringing\<rparr>, [])
      else if st = 200 then
        (if cseq_method (h_cseq (m_headers message)) = ''INVITE'' then
           (let call1 = call\<lparr>status := Answered\<rparr>;
                call2 = (case dialog call1 of
                           None \<Rightarrow> call1
                         | Some d \<Rightarrow>
                             call1\<lparr>dialog := Some (d\<lparr>lastResponse := Some message,
                                                      remote := h_to (m_headers message),
                                                      local_id := h_from (m_headers message)\<rparr>)\<rparr>)
            in (call2, sendAck s call2 message))
         else (call, []))
      else if st = 401 \<or> st = 407 then
        (if cseq_method (h_cseq (m_headers message)) = ''INVITE''
         then reInviteWithAuth dg s now call message
         else (call, []))
      else if st = 486 then
        (call\<lparr>status := Ended, error := Some ''Busy'', endTime := Some now\<rparr>, [])
      else if st = 487 then
        (call\<lparr>status := Ended, endTime := Some now\<rparr>, [])
      else if st \<ge> 400 then
        (call\<lparr>status := Failed,
              error := Some (string_of_nat st @ '' ''
                             @ (case m_reason message of None \<Rightarrow> ''undefined'' | Some r \<Rightarrow> r)),
              endTime := Some now\<rparr>, [])
      else (call, []))"

text \<open>\<open>handleIncomingMessage(message)\<close>: a message without a (non-zero) status is not a
  response; a REGISTER response never reaches the call handling; a response for an
  unknown call is dropped.\<close>

definition handleIncomingMessage ::
    "DigestHelper \<Rightarrow> nat \<Rightarrow> string \<Rightarrow> string \<Rightarrow> SIPMessage \<Rightarrow> SIPService \<Rightarrow> SIPService" where
  "handleIncomingMessage dg now uuid1 uuid2 message s =
     (case m_status message of
        None \<Rightarrow> s
      | Some st \<Rightarrow>
          if st = 0 then s
          else if cseq_method (h_cseq (m_headers message)) = ''REGISTER''
          then handleRegisterResponse dg uuid1 uuid2 message st s
          else
            (case map_of (activeCalls s) (h_call_id (m_headers message)) of
               None \<Rightarrow> s
             | Some call \<Rightarrow>
                 (case handleCallResponse dg s now message st call of
                    (call', msgs) \<Rightarrow>
                      s\<lparr>activeCalls :=
                           AList.update (h_call_id (m_headers message)) call' (activeCalls s),
                        sent := sent s @ msgs\<rparr>)))"

definition byeRequestOf :: "string \<Rightarrow> SIPDialog \<Rightarrow> SIPMessage \<Rightarrow> SIPMessage \<Rightarrow> SIPMessage" where
  "byeRequestOf cid d r invite =
     \<lparr>m_method = Some ''BYE'',
      m_uri = Some (firstContactUriOr (h_contact (m_headers r)) (uri (remote d))),
      m_status = None,
      m_reason = None,
      m_headers =
        \<lparr>h_to = remote d,
         h_from = local_id d,
         h_call_id = cid,
         h_cseq = \<lparr>cseq_method = ''BYE'', cseq_seq = cseq d + 1\<rparr>,
         h_contact = [],
         h_content_type = None,
         h_expires = None,
         h_via = h_via (m_headers invite),
         h_authorization = None\<rparr>,
      m_content = None\<rparr>"

definition cancelRequestOf :: "string \<Rightarrow> SIPMessage \<Rightarrow> SIPMessage" where
  "cancelRequestOf cid invite =
     \<lparr>m_method = Some ''CANCEL'',
      m_uri = m_uri invite,
      m_status = None,
      m_reason = None,
      m_headers =
        \<lparr>h_to = h_to (m_headers invite),
         h_from = h_from (m_headers invite),
         h_call_id = cid,
         h_cseq = \<lparr>cseq_method = ''CANCEL'', cseq_seq = cseq_seq (h_cseq (m_headers invite))\<rparr>,
         h_contact = [],
         h_content_type = None,
         h_expires = None,
         h_via = h_via (m_headers invite),
         h_authorization = None\<rparr>,
      m_content = None\<rparr>"

text \<open>
  The try block of \<open>hangup\<close> for a call that is tracked. \<open>None\<close> is the catch handler
  (\<open>return false\<close>, the call untouched): building the BYE reads the stored INVITE, and
  \<open>sip.send\<close> is called without the check the other paths make.
\<close>

definition hangupCall ::
    "SIPService \<Rightarrow> nat \<Rightarrow> string \<Rightarrow> SIPCall \<Rightarrow> (SIPCall \<times> SIPMessage list) option" where
  "hangupCall s now cid call =
     (let finish = (\<lambda>msgs. Some (call\<lparr>status := Ended, endTime := Some now\<rparr>, msgs))
      in case (if status call = Answered
               then (case dialog call of
                       None \<Rightarrow> None
                     | Some d \<Rightarrow> (case lastResponse d of None \<Rightarrow> None | Some r \<Rightarrow> Some (d, r)))
               else None) of
           Some (d, r) \<Rightarrow>
             (case inviteRequest d of
                None \<Rightarrow> None
              | Some invite \<Rightarrow>
                  if sipSendAvailable s then finish [byeRequestOf cid d r invite] else None)
         | None \<Rightarrow>
             if status call = Ringing \<or> status call = Initiating then
               (case dialog call of
                  None \<Rightarrow> finish []
                | Some d \<Rightarrow>
                    (case inviteRequest d of
                       None \<Rightarrow> finish []
                     | Some invite \<Rightarrow>
                         if sipSendAvailable s then finish [cancelRequestOf cid invite] else None))
             else finish [])"

definition hangup :: "nat \<Rightarrow> string \<Rightarrow> SIPService \<Rightarrow> bool \<times> SIPService" where
  "hangup now cid s =
     (case map_of (activeCalls s) cid of
        None \<Rightarrow> (False, s)
      | Some call \<Rightarrow>
          (case hangupCall s now cid call of
             None \<Rightarrow> (False, s)
           | Some (call', msgs) \<Rightarrow>
               (True, s\<lparr>activeCalls := AList.update cid call' (activeCalls s),
                        sent := sent s @ msgs\<rparr>)))"

definition infoRequestOf ::
    "string \<Rightarrow> string \<Rightarrow> SIPDialog \<Rightarrow> SIPMessage \<Rightarrow> SIPMessage \<Rightarrow> SIPMessage" where
  "infoRequestOf cid digits d r invite =
     \<lparr>m_method = Some ''INFO'',
      m_uri = Some (firstContactUriOr (h_contact (m_headers r)) (uri (remote d))),
      m_status = None,
      m_reason = None,
      m_headers =
        \<lparr>h_to = remote d,
         h_from = local_id d,
         h_call_id = cid,
         h_cseq = \<lparr>cseq_method = ''INFO'', cseq_seq = cseq d + 1\<rparr>,
         h_contact = [],
         h_content_type = Some ''application/dtmf-relay'',
         h_expires = None,
         h_via = h_via (m_headers invite),
         h_authorization = None\<rparr>,
      m_content = Some (''Signal='' @ digits @ CRLF @ ''Duration=100'')\<rparr>"

text \<open>
  \<open>sendDTMF\<close> for a tracked call: the success flag, the call as left behind and the
  messages sent. The counter is advanced before \<open>sip.send\<close> is called, so a missing
  \<open>sip.send\<close> returns false with the counter already advanced.
\<close>

definition sendDTMFCall ::
    "SIPService \<Rightarrow> string \<Rightarrow> string \<Rightarrow> SIPCall \<Rightarrow> bool \<times> SIPCall \<times> SIPMessage list" where
  "sendDTMFCall s cid digits call =
     (case dialog call of
        None \<Rightarrow> (False, call, [])
      | Some d \<Rightarrow>
          if status call \<noteq> Answered then (False, call, [])
          else
            (case lastResponse d of
               None \<Rightarrow> (False, call, [])
             | Some r \<Rightarrow>
                 (case inviteRequest d of
                    None \<Rightarrow> (False, call, [])
                  | Some invite \<Rightarrow>
                      (let call1 = call\<lparr>dialog := Some (d\<lparr>cseq := cseq d + 1\<rparr>)\<rparr>
                       in if sipSendAvailable s
                          then (True, call1, [infoRequestOf cid digits d r invite])
                          else (False, call1, [])))))"

definition sendDTMF :: "string \<Rightarrow> string \<Rightarrow> SIPService \<Rightarrow> bool \<times> SIPService" where
  "sendDTMF cid digits s =
     (case map_of (activeCalls s) cid of
        None \<Rightarrow> (False, s)
      | Some call \<Rightarrow>
          (case sendDTMFCall s cid digits call of
             (ok, call', msgs) \<Rightarrow>
               (ok, s\<lparr>activeCalls := AList.update cid call' (activeCalls s),
                      sent := sent s @ msgs\<rparr>)))"

definition getCallStatus :: "string \<Rightarrow> SIPService \<Rightarrow> SIPCall option" where
  "getCallStatus cid s = map_of (activeCalls s) cid"

definition getAllCalls :: "SIPService \<Rightarrow> SIPCall list" where
  "getAllCalls s = map snd (activeCalls s)"

text \<open>What an inbound BYE does to the call it names.\<close>

definition remoteBye :: "nat \<Rightarrow> SIPCall \<Rightarrow> SIPCall" where
  "remoteBye now call = call\<lparr>status := Ended, endTime := Some now\<rparr>"

text \<open>\<open>handleIncomingRequest(request)\<close>. The 200 reply is handed to \<open>sip.send\<close> without a
  check; a missing \<open>sip.send\<close> throws after the call has been marked.\<close>

definition handleIncomingRequest :: "nat \<Rightarrow> SIPMessage \<Rightarrow> SIPService \<Rightarrow> SIPService" where
  "handleIncomingRequest now request s =
     (if m_method request = Some ''BYE'' then
        (let cid = h_call_id (m_headers request);
             s1 = (case map_of (activeCalls s) cid of
                     None \<Rightarrow> s
                   | Some call \<Rightarrow>
                       s\<lparr>activeCalls := AList.update cid (remoteBye now call) (activeCalls s)\<rparr>)
         in if sipSendAvailable s1
            then sipSend \<lparr>m_method = Some ''OK'', m_uri = None, m_status = Some 200,
                          m_reason = Some ''OK'', m_headers = m_headers request,
                          m_content = None\<rparr> s1
            else s1)
      else s)"

text \<open>\<open>shutdown()\<close>: every tracked call is hung up in the Map's order; \<open>sip.stop()\<close>
  is taken to return.\<close>

definition shutdown :: "nat \<Rightarrow> SIPService \<Rightarrow> SIPService" where
  "shutdown now s =
     (fold (\<lambda>cid st. snd (hangup now cid st)) (map fst (activeCalls s)) s)
       \<lparr>initialized := False, registered := False\<rparr>"

section \<open>One call's events\<close>

text \<open>
  Every operation above touches one call only. The events that can reach a tracked call,
  each with the availability of \<open>sip.send\<close> and the clock reading at its time: a response
  routed to the call, the completion of an INVITE send, \<open>hangup\<close>, \<open>sendDTMF\<close> and an
  inbound BYE. The state of a run is the call and the requests sent for it so far.
\<close>

datatype CallEvent =
    Response SIPMessage
  | InviteSent "string option"
  | Hangup
  | DTMF string
  | RemoteBye

definition callStep ::
    "DigestHelper \<Rightarrow> SIPService \<Rightarrow> string \<Rightarrow> bool \<times> nat \<times> CallEvent
       \<Rightarrow> SIPCall \<times> SIPMessage list \<Rightarrow> SIPCall \<times> SIPMessage list" where
  "callStep dg s cid e st =
     (case (e, st) of
        ((sendOk, now, ev), (call, out)) \<Rightarrow>
          (let s' = s\<lparr>sipSendAvailable := sendOk\<rparr>
           in case ev of
                Response message \<Rightarrow>
                  (case m_status message of
                     None \<Rightarrow> (call, out)
                   | Some code \<Rightarrow>
                       if code = 0 \<or> cseq_method (h_cseq (m_headers message)) = ''REGISTER''
                       then (call, out)
                       else (case handleCallResponse dg s' now message code call of
                               (call', msgs) \<Rightarrow> (call', out @ msgs)))
              | InviteSent err \<Rightarrow> (inviteSendCallback err now call, out)
              | Hangup \<Rightarrow>
                  (case hangupCall s' now cid call of
                     None \<Rightarrow> (call, out)
                   | Some (call', msgs) \<Rightarrow> (call', out @ msgs))
              | DTMF digits \<Rightarrow>
                  (case sendDTMFCall s' cid digits call of
                     (ok, call', msgs) \<Rightarrow> (call', out @ msgs))
              | RemoteBye \<Rightarrow> (remoteBye now call, out)))"

definition runCall ::
    "DigestHelper \<Rightarrow> SIPService \<Rightarrow> string \<Rightarrow> (bool \<times> nat \<times> CallEvent) list
       \<Rightarrow> SIPCall \<times> SIPMessage list \<Rightarrow> SIPCall \<times> SIPMessage list" where
  "runCall dg s cid evs st = fold (callStep dg s cid) evs st"

text \<open>The call and the INVITE with which \<open>makeCall\<close> starts a run.\<close>

definition placedCall ::
    "SIPService \<Rightarrow> string \<Rightarrow> string \<Rightarrow> string \<Rightarrow> nat \<Rightarrow> string \<Rightarrow> SIPCall \<times> SIPMessage list" where
  "placedCall s cid tg branch now dest =
     (let cleanNumber = filter isDigit dest;
          invite = inviteRequestOf s cid tg branch cleanNumber now
      in (withDialog invite (newCall s cid cleanNumber now), [invite]))"

definition seqOf :: "SIPMessage \<Rightarrow> int" where
  "seqOf m = cseq_seq (h_cseq (m_headers m))"

definition hasMethod :: "string \<Rightarrow> SIPMessage \<Rightarrow> bool" where
  "hasMethod meth m = (m_method m = Some meth)"

section \<open>The specification's words\<close>

text \<open>The legal edges of the call state machine as section 4.2 of the specification
  lists them (not taken from the code).\<close>

definition legalEdge_spec :: "CallStatus \<Rightarrow> CallStatus \<Rightarrow> bool" where
  "legalEdge_spec a b =
     ((a = Initiating \<and> b = Ringing) \<or> (a = Ringing \<and> b = Answered)
      \<or> (a = Answered \<and> b = Ended)
      \<or> ((a = Initiating \<or> a = Ringing) \<and> b = Failed)
      \<or> ((a = Answered \<or> a = Ringing \<or> a = Initiating) \<and> b = Ended))"

section \<open>Concrete states\<close>

text \<open>The constructor: the state of a fresh service object in a fresh process.\<close>

definition newSIPService ::
    "string \<Rightarrow> string \<Rightarrow> string \<Rightarrow> string \<Rightarrow> nat \<Rightarrow> string \<Rightarrow> string \<Rightarrow> SIPService" where
  "newSIPService username password server fromNum port lip pip =
     \<lparr>initialized = False, activeCalls = [], sipUsername = username, sipPassword = password,
      sipServer = server, sipPort = port, localIP = lip, publicIP = pip,
      fromNumber_cfg = fromNum,
      authSession = \<lparr>as_callId = None, as_tag = None, as_cseq = None, as_digest = []\<rparr>,
      registered = False, clientPort = 7060, transport = UDP,
      registrationPromise = None, registrationResolve = None, registrationReject = None,
      registrationAttempts = 0, maxRegistrationAttempts = 3,
      globalSipStarted = False, sipSendAvailable = False,
      promises = [], timers = [], sent = []\<rparr>"

definition demoDigest :: DigestHelper where
  "demoDigest =
     \<lparr>challenge = (\<lambda>ctx m. Inr ((''nonce'', ''n1'') # ctx)),
      signRequest = (\<lambda>ctx m cred. Inr (ctx, ''Digest username='' @ fst cred))\<rparr>"

definition demoEnv :: Env where
  "demoEnv = \<lparr>NODE_ENV = Some ''production'', SIP_USE_TCP = None, FALEVONO_SIP_PORT = 7060,
              configuredLocalIP = ''10.0.0.5'', configuredPublicIP = ''203.0.113.7''\<rparr>"

definition demoService :: SIPService where
  "demoService =
     newSIPService ''alice'' ''secret'' ''vono2.me'' ''5511999'' 5060 ''127.0.0.1'' ''127.0.0.1''"

definition demoResponse :: "nat \<Rightarrow> string \<Rightarrow> string \<Rightarrow> int \<Rightarrow> SIPMessage" where
  "demoResponse st cid meth sq =
     \<lparr>m_method = None, m_uri = None, m_status = Some st, m_reason = Some ''reason'',
      m_headers =
        \<lparr>h_to = \<lparr>uri = ''sip:15550123456@vono2.me'', tag = Some ''remote-tag''\<rparr>,
         h_from = \<lparr>uri = ''sip:alice@vono2.me'', tag = Some ''t1''\<rparr>,
         h_call_id = cid,
         h_cseq = \<lparr>cseq_method = meth, cseq_seq = sq\<rparr>,
         h_contact = [\<lparr>contact_uri = ''sip:15550123456@198.51.100.9:5060''\<rparr>],
         h_content_type = None, h_expires = None, h_via = [], h_authorization = None\<rparr>,
      m_content = None\<rparr>"

text \<open>A service that has registered and placed the call \<open>c1\<close>, then the same with the
  call ringing, answered, and failed on a 503.\<close>

definition initializedService :: SIPService where
  "initializedService =
     snd (initialize demoDigest demoEnv (StartReturns True) ''reg-call'' ''reg-tag'' demoService)"

definition registeredService :: SIPService where
  "registeredService =
     handleIncomingMessage demoDigest 0 ''u1'' ''u2'' (demoResponse 200 ''reg-call'' ''REGISTER'' 1)
       initializedService"

definition callingService :: SIPService where
  "callingService =
     snd (makeCall demoDigest demoEnv (StartReturns True) ''u1'' ''u2'' ''c1'' ''t1'' ''b1'' 1000
            ''+1 (555) 012-3456'' registeredService)"

definition ringingService :: SIPService where
  "ringingService = onInviteSent ''c1'' None 1001 callingService"

definition answeredService :: SIPService where
  "answeredService =
     handleIncomingMessage demoDigest 1500 ''u1'' ''u2'' (demoResponse 200 ''c1'' ''INVITE'' 1)
       ringingService"

definition failedService :: SIPService where
  "failedService =
     handleIncomingMessage demoDigest 1500 ''u1'' ''u2'' (demoResponse 503 ''c1'' ''INVITE'' 1)
       ringingService"

text \<open>
  A registration that runs out of attempts: the first timer fires and retries, the service
  is shut down and initialised again (third attempt, second promise), the registrar answers
  403, and the second timer fires.
\<close>

definition retriedService :: SIPService where
  "retriedService = fireTimer demoDigest demoEnv 0 ''u1'' ''u2'' initializedService"

definition restartedService :: SIPService where
  "restartedService =
     snd (initialize demoDigest demoEnv (StartReturns True) ''u1'' ''u2''
            (shutdown 25000 retriedService))"

definition rejectedService :: SIPService where
  "rejectedService =
     handleIncomingMessage demoDigest 26000 ''u1'' ''u2''
       (demoResponse 403 ''reg-call'' ''REGISTER'' 3) restartedService"

definition timedOutService :: SIPService where
  "timedOutService = fireTimer demoDigest demoEnv 0 ''u1'' ''u2'' rejectedService"

text \<open>The ringing call challenged with a 401, then hung up.\<close>

definition reinvitedService :: SIPService where
  "reinvitedService =
     handleIncomingMessage demoDigest 1200 ''u1'' ''u2'' (demoResponse 401 ''c1'' ''INVITE'' 1)
       ringingService"

definition cancelledService :: SIPService where
  "cancelledService = snd (hangup 1700 ''c1'' reinvitedService)"

text \<open>Two runs of the call \<open>c1\<close> from the registered service: one answered, sent a
  digit and hung up; one that fails on a 503.\<close>

definition demoRun :: "SIPCall \<times> SIPMessage list" where
  "demoRun =
     runCall demoDigest registeredService ''c1''
       [(True, 1001, InviteSent None),
        (True, 1500, Response (demoResponse 200 ''c1'' ''INVITE'' 1)),
        (True, 1600, DTMF ''5''),
        (True, 2000, Hangup)]
       (placedCall registeredService ''c1'' ''t1'' ''b1'' 1000 ''+1 (555) 012-3456'')"

definition failedRun :: "SIPCall \<times> SIPMessage list" where
  "failedRun =
     runCall demoDigest registeredService ''c1''
       [(True, 1001, InviteSent None),
        (True, 1500, Response (demoResponse 503 ''c1'' ''INVITE'' 1))]
       (placedCall registeredService ''c1'' ''t1'' ''b1'' 1000 ''+1 (555) 012-3456'')"

section \<open>Invariants of one call's run\<close>

text \<open>The requests that advance the dialog's counter: INVITE (the re-authenticated INVITE
  included) and INFO.\<close>

definition counted :: "SIPMessage \<Rightarrow> bool" where
  "counted m = (hasMethod ''INVITE'' m \<or> hasMethod ''INFO'' m)"

text \<open>The order between an earlier request \<open>a\<close> and a later request \<open>b\<close>.\<close>

definition seqBefore :: "SIPMessage \<Rightarrow> SIPMessage \<Rightarrow> bool" where
  "seqBefore a b = (counted a \<and> (counted b \<or> hasMethod ''BYE'' b) \<longrightarrow> seqOf a < seqOf b)"

text \<open>The call has the dialog \<open>d\<close>, the dialog retains an INVITE, an answered call has a
  last response, and the remote identity is the To header of the last response.\<close>

definition dialogOk :: "SIPCall \<Rightarrow> SIPDialog \<Rightarrow> bool" where
  "dialogOk call d =
     (dialog call = Some d \<and> inviteRequest d \<noteq> None
      \<and> (status call = Answered \<longrightarrow> lastResponse d \<noteq> None)
      \<and> (\<forall>r. lastResponse d = Some r \<longrightarrow> remote d = h_to (m_headers r)))"

text \<open>What one event may do to the counter and send: the counter does not go back, at most
  one request is sent, a counted request is within the new counter, and a counted request
  or a BYE is above the old one.\<close>

definition advances :: "SIPDialog \<Rightarrow> SIPDialog \<Rightarrow> SIPMessage list \<Rightarrow> bool" where
  "advances d d' msgs =
     (cseq d \<le> cseq d' \<and> length msgs \<le> 1
      \<and> (\<forall>m \<in> set msgs. (counted m \<longrightarrow> seqOf m \<le> cseq d')
                          \<and> (counted m \<or> hasMethod ''BYE'' m \<longrightarrow> cseq d < seqOf m)))"

definition callInv :: "SIPCall \<times> SIPMessage list \<Rightarrow> bool" where
  "callInv st =
     (case st of
        (call, out) \<Rightarrow>
          (\<exists>d. dialogOk call d
              \<and> (\<forall>m \<in> set out. counted m \<longrightarrow> seqOf m \<le> cseq d)
              \<and> sorted_wrt seqBefore out))"

section \<open>The service's events\<close>





text \<open>A list of firings of armed timers (by their positions) in the concrete
  environment.\<close>

definition timerFirings :: "nat list \<Rightarrow> SIPService \<Rightarrow> SIPService" where
  "timerFirings ks s = fold (\<lambda>k. fireTimer demoDigest demoEnv k ''u1'' ''u2'') ks s"


section \<open>What the registration operations change\<close>

lemma register_fresh_fields:
  "initialized (register dg None uuid1 uuid2 s) = initialized s"
  "activeCalls (register dg None uuid1 uuid2 s) = activeCalls s"
  "registered (register dg None uuid1 uuid2 s) = registered s"
  "registrationPromise (register dg None uuid1 uuid2 s) = registrationPromise s"
  "registrationResolve (register dg None uuid1 uuid2 s) = registrationResolve s"
  "registrationReject (register dg None uuid1 uuid2 s) = registrationReject s"
  "registrationAttempts (register dg None uuid1 uuid2 s) = registrationAttempts s + 1"
  "maxRegistrationAttempts (register dg None uuid1 uuid2 s) = maxRegistrationAttempts s"
  "globalSipStarted (register dg None uuid1 uuid2 s) = globalSipStarted s"
  "sipSendAvailable (register dg None uuid1 uuid2 s) = sipSendAvailable s"
  "promises (register dg None uuid1 uuid2 s) = promises s"
  "timers (register dg None uuid1 uuid2 s) = timers s"
  by (simp_all add: register_def sipSend_def Let_def)

lemma register_fresh_session:
  "authSession (register dg None uuid1 uuid2 s)
     = (authSession s)
         \<lparr>as_callId := Some (case as_callId (authSession s) of
                               None \<Rightarrow> uuid1 | Some c \<Rightarrow> if c \<noteq> [] then c else uuid1),
          as_tag := Some (case as_tag (authSession s) of
                            None \<Rightarrow> uuid2 | Some t \<Rightarrow> if t \<noteq> [] then t else uuid2),
          as_cseq := Some ((case as_cseq (authSession s) of None \<Rightarrow> 0 | Some n \<Rightarrow> n) + 1)\<rparr>"
  by (simp add: register_def sipSend_def Let_def)

lemma register_fresh_sent:
  "map seqOf (sent (register dg None uuid1 uuid2 s))
     = map seqOf (sent s)
       @ (if sipSendAvailable s
          then [(case as_cseq (authSession s) of None \<Rightarrow> 0 | Some n \<Rightarrow> n) + 1] else [])"
  "map m_method (sent (register dg None uuid1 uuid2 s))
     = map m_method (sent s) @ (if sipSendAvailable s then [Some ''REGISTER''] else [])"
  by (simp_all add: register_def sipSend_def registerRequestOf_def seqOf_def Let_def)

lemma createRegistrationPromise_fields:
  "initialized (createRegistrationPromise dg env useTCP uuid1 uuid2 s)"
  "activeCalls (createRegistrationPromise dg env useTCP uuid1 uuid2 s) = activeCalls s"
  "registered (createRegistrationPromise dg env useTCP uuid1 uuid2 s) = registered s"
  "registrationPromise (createRegistrationPromise dg env useTCP uuid1 uuid2 s)
     = Some (length (promises s))"
  "registrationResolve (createRegistrationPromise dg env useTCP uuid1 uuid2 s)
     = Some (length (promises s))"
  "registrationReject (createRegistrationPromise dg env useTCP uuid1 uuid2 s)
     = Some (length (promises s))"
  "registrationAttempts (createRegistrationPromise dg env useTCP uuid1 uuid2 s)
     = registrationAttempts s + 1"
  "maxRegistrationAttempts (createRegistrationPromise dg env useTCP uuid1 uuid2 s)
     = maxRegistrationAttempts s"
  "globalSipStarted (createRegistrationPromise dg env useTCP uuid1 uuid2 s) = globalSipStarted s"
  "sipSendAvailable (createRegistrationPromise dg env useTCP uuid1 uuid2 s) = sipSendAvailable s"
  "promises (createRegistrationPromise dg env useTCP uuid1 uuid2 s)
     = promises s @ [\<lparr>p_state = Pending, p_calls = []\<rparr>]"
  "timers (createRegistrationPromise dg env useTCP uuid1 uuid2 s)
     = timers s @ [(length (promises s),
                    if NODE_ENV env = Some ''production''
                    then (if useTCP then 30000 else 20000)
                    else (if useTCP then 15000 else 10000))]"
  by (simp_all add: createRegistrationPromise_def register_fresh_fields Let_def)

lemma createRegistrationPromise_session:
  "authSession (createRegistrationPromise dg env useTCP uuid1 uuid2 s)
     = authSession (register dg None uuid1 uuid2 s)"
  "map seqOf (sent (createRegistrationPromise dg env useTCP uuid1 uuid2 s))
     = map seqOf (sent (register dg None uuid1 uuid2 s))"
  "map m_method (sent (createRegistrationPromise dg env useTCP uuid1 uuid2 s))
     = map m_method (sent (register dg None uuid1 uuid2 s))"
  by (simp_all add: createRegistrationPromise_def register_fresh_session register_fresh_sent
      Let_def)

lemma initialize_first:
  assumes "\<not> initialized s" and "\<not> globalSipStarted s"
  shows "initialize dg env (StartReturns True) uuid1 uuid2 s
     = (None, createRegistrationPromise dg env
                (SIP_USE_TCP env = Some ''true'' \<or> NODE_ENV env = Some ''development'')
                uuid1 uuid2
                (s\<lparr>localIP := configuredLocalIP env, publicIP := configuredPublicIP env,
                   clientPort := FALEVONO_SIP_PORT env,
                   transport := (if SIP_USE_TCP env = Some ''true''
                                    \<or> NODE_ENV env = Some ''development'' then TCP else UDP),
                   sipSendAvailable := True, globalSipStarted := True\<rparr>))"
  using assms by (simp add: initialize_def Let_def)

lemma initialize_again:
  assumes "\<not> initialized s" and "globalSipStarted s" and "sipSendAvailable s"
  shows "initialize dg env start uuid1 uuid2 s
     = (None, createRegistrationPromise dg env
                (SIP_USE_TCP env = Some ''true'' \<or> NODE_ENV env = Some ''development'')
                uuid1 uuid2
                (s\<lparr>localIP := configuredLocalIP env, publicIP := configuredPublicIP env,
                   clientPort := FALEVONO_SIP_PORT env,
                   transport := (if SIP_USE_TCP env = Some ''true''
                                    \<or> NODE_ENV env = Some ''development'' then TCP else UDP)\<rparr>))"
  using assms by (simp add: initialize_def Let_def)

section \<open>Facts about the concrete states\<close>

lemma demoService_facts:
  "\<not> initialized demoService"
  "\<not> registered demoService"
  "\<not> globalSipStarted demoService"
  "activeCalls demoService = []"
  "promises demoService = []"
  "timers demoService = []"
  "sent demoService = []"
  "registrationAttempts demoService = 0"
  "maxRegistrationAttempts demoService = 3"
  "authSession demoService
     = \<lparr>as_callId = None, as_tag = None, as_cseq = None, as_digest = []\<rparr>"
  by (simp_all add: demoService_def newSIPService_def)

lemma initializedService_facts:
  "initialized initializedService"
  "\<not> registered initializedService"
  "sipSendAvailable initializedService"
  "globalSipStarted initializedService"
  "activeCalls initializedService = []"
  "registrationPromise initializedService = Some 0"
  "registrationResolve initializedService = Some 0"
  "registrationReject initializedService = Some 0"
  "promises initializedService = [\<lparr>p_state = Pending, p_calls = []\<rparr>]"
  "timers initializedService = [(0, 20000)]"
  "registrationAttempts initializedService = 1"
  "maxRegistrationAttempts initializedService = 3"
  "authSession initializedService
     = \<lparr>as_callId = Some ''reg-call'', as_tag = Some ''reg-tag'', as_cseq = Some 1, as_digest = []\<rparr>"
  "map seqOf (sent initializedService) = [1]"
  "map m_method (sent initializedService) = [Some ''REGISTER'']"
  by (simp_all add: initializedService_def initialize_first demoService_facts
      createRegistrationPromise_fields createRegistrationPromise_session register_fresh_session
      register_fresh_sent demoEnv_def)

lemma registeredService_facts:
  "initialized registeredService"
  "registered registeredService"
  "sipSendAvailable registeredService"
  "activeCalls registeredService = []"
  "sent registeredService = sent initializedService"
  "promises registeredService = [\<lparr>p_state = Fulfilled, p_calls = [ResolveCall]\<rparr>]"
  by (simp_all add: registeredService_def handleIncomingMessage_def handleRegisterResponse_def
      demoResponse_def resolvePromise_def initializedService_facts Let_def)

lemma makeCall_registeredService:
  "makeCall demoDigest demoEnv (StartReturns True) ''u1'' ''u2'' ''c1'' ''t1'' ''b1'' 1000
     ''+1 (555) 012-3456'' registeredService = (Returned ''c1'', callingService)"
  by (simp add: callingService_def makeCall_def startCall_def registeredService_facts
      isDigit_def Let_def)

lemma callingService_c1:
  "\<exists>call d invite. activeCalls callingService = [(''c1'', call)]
     \<and> status call = Initiating \<and> endTime call = None
     \<and> dialog call = Some d \<and> inviteRequest d = Some invite \<and> lastResponse d = None
     \<and> cseq d = 1 \<and> seqOf invite = 1 \<and> m_method invite = Some ''INVITE''"
  by (simp add: callingService_def makeCall_def startCall_def registeredService_facts sipSend_def
      withDialog_def newCall_def inviteRequestOf_def seqOf_def isDigit_def Let_def)

lemma callingService_facts:
  "sipSendAvailable callingService"
  "map seqOf (sent callingService) = [1, 1]"
  "map m_method (sent callingService) = [Some ''REGISTER'', Some ''INVITE'']"
  by (simp_all add: callingService_def makeCall_def startCall_def registeredService_facts
      initializedService_facts sipSend_def inviteRequestOf_def seqOf_def isDigit_def
      Let_def)

lemma ringingService_c1:
  "\<exists>call d invite. activeCalls ringingService = [(''c1'', call)]
     \<and> status call = Ringing \<and> endTime call = None
     \<and> dialog call = Some d \<and> inviteRequest d = Some invite \<and> lastResponse d = None
     \<and> cseq d = 1 \<and> seqOf invite = 1 \<and> m_method invite = Some ''INVITE''"
proof -
  obtain call d invite where c: "activeCalls callingService = [(''c1'', call)]"
    "endTime call = None" "dialog call = Some d" "inviteRequest d = Some invite"
    "lastResponse d = None" "cseq d = 1" "seqOf invite = 1" "m_method invite = Some ''INVITE''"
    using callingService_c1 by blast
  then show ?thesis
    by (simp add: ringingService_def onInviteSent_def inviteSendCallback_def)
qed

lemma ringingService_facts:
  "sipSendAvailable ringingService"
  "sent ringingService = sent callingService"
  using callingService_c1
  by (auto simp: ringingService_def onInviteSent_def callingService_facts)


lemma answeredService_facts:
  "sipSendAvailable answeredService"
  using ringingService_c1
  by (auto simp: answeredService_def handleIncomingMessage_def handleCallResponse_def
      demoResponse_def ringingService_facts Let_def split: prod.splits)

lemma failedService_c1:
  "\<exists>call. activeCalls failedService = [(''c1'', call)]
     \<and> status call = Failed \<and> endTime call = Some 1500"
proof -
  obtain call where c: "activeCalls ringingService = [(''c1'', call)]"
    using ringingService_c1 by blast
  then show ?thesis
    by (simp add: failedService_def handleIncomingMessage_def handleCallResponse_def
        demoResponse_def Let_def)
qed

lemma shutdown_no_calls:
  "activeCalls s = [] \<Longrightarrow> shutdown now s = s\<lparr>initialized := False, registered := False\<rparr>"
  by (simp add: shutdown_def)

lemma retriedService_facts:
  "initialized retriedService"
  "\<not> registered retriedService"
  "sipSendAvailable retriedService"
  "globalSipStarted retriedService"
  "activeCalls retriedService = []"
  "promises retriedService = [\<lparr>p_state = Pending, p_calls = []\<rparr>]"
  "timers retriedService = []"
  "registrationAttempts retriedService = 2"
  "maxRegistrationAttempts retriedService = 3"
  by (simp_all add: retriedService_def fireTimer_def registrationTimeout_def
      initializedService_facts register_fresh_fields)

lemma restartedService_facts:
  "\<not> registered restartedService"
  "registrationReject restartedService = Some 1"
  "promises restartedService
     = [\<lparr>p_state = Pending, p_calls = []\<rparr>, \<lparr>p_state = Pending, p_calls = []\<rparr>]"
  "timers restartedService = [(1, 20000)]"
  "registrationAttempts restartedService = 3"
  "maxRegistrationAttempts restartedService = 3"
  by (simp_all add: restartedService_def shutdown_no_calls retriedService_facts initialize_again
      createRegistrationPromise_fields demoEnv_def)

lemma rejectedService_facts:
  "\<not> registered rejectedService"
  "promises rejectedService
     = [\<lparr>p_state = Pending, p_calls = []\<rparr>,
        \<lparr>p_state = Rejected (''Registration failed with status '' @ string_of_nat 403),
         p_calls = [RejectCall (''Registration failed with status '' @ string_of_nat 403)]\<rparr>]"
  "timers rejectedService = [(1, 20000)]"
  "registrationAttempts rejectedService = 3"
  "maxRegistrationAttempts rejectedService = 3"
  by (simp_all add: rejectedService_def handleIncomingMessage_def handleRegisterResponse_def
      demoResponse_def restartedService_facts rejectPromise_def)

section \<open>Properties\<close>

subsection \<open>A 486 response\<close>

text \<open>
  C5 (as the code has it). For every tracked call, a 486 response that is not a REGISTER
  response leaves the call with status \<open>ended\<close> (not \<open>failed\<close>), the error text
  \<open>Busy\<close> and the end time recorded.
\<close>

theorem busy_response_ends_call:
  assumes "map_of (activeCalls s) (h_call_id (m_headers message)) = Some call"
    and "m_status message = Some 486"
    and "cseq_method (h_cseq (m_headers message)) \<noteq> ''REGISTER''"
  shows "\<exists>call'. getCallStatus (h_call_id (m_headers message))
                    (handleIncomingMessage dg now uuid1 uuid2 message s) = Some call'
               \<and> status call' = Ended \<and> error call' = Some ''Busy'' \<and> endTime call' = Some now"
  using assms
  by (simp add: handleIncomingMessage_def handleCallResponse_def getCallStatus_def update_conv')

theorem busy_response_ends_call_witness:
  "\<exists>call'. getCallStatus ''c1''
              (handleIncomingMessage demoDigest 1500 ''u1'' ''u2''
                 (demoResponse 486 ''c1'' ''INVITE'' 1) ringingService) = Some call'
          \<and> status call' = Ended \<and> error call' = Some ''Busy'' \<and> endTime call' = Some 1500"
proof -
  obtain call where h1:
    "map_of (activeCalls ringingService)
       (h_call_id (m_headers (demoResponse 486 ''c1'' ''INVITE'' 1))) = Some call"
    using ringingService_c1 by (auto simp: demoResponse_def)
  have h2: "m_status (demoResponse 486 ''c1'' ''INVITE'' 1) = Some 486"
    by (simp add: demoResponse_def)
  have h3: "cseq_method (h_cseq (m_headers (demoResponse 486 ''c1'' ''INVITE'' 1))) \<noteq> ''REGISTER''"
    by (simp add: demoResponse_def)
  from busy_response_ends_call [OF h1 h2 h3, of demoDigest 1500 "''u1''" "''u2''"]
  show ?thesis by (simp add: demoResponse_def)
qed

text \<open>Scenario E of the specification says \<open>failed\<close>; the ringing call \<open>c1\<close> is
  \<open>ended\<close> after a 486.\<close>

theorem busy_response_not_failed:
  "map_option status (getCallStatus ''c1''
      (handleIncomingMessage demoDigest 1500 ''u1'' ''u2'' (demoResponse 486 ''c1'' ''INVITE'' 1)
         ringingService)) \<noteq> Some Failed"
proof -
  obtain call where "activeCalls ringingService = [(''c1'', call)]"
    using ringingService_c1 by blast
  then show ?thesis
    by (simp add: handleIncomingMessage_def handleCallResponse_def getCallStatus_def
        demoResponse_def)
qed

subsection \<open>A 200 response to the INVITE\<close>

text \<open>
  C4. For a tracked call whose dialog retains its INVITE, with \<open>sip.send\<close> available, a
  200 response whose CSeq method is INVITE makes the call \<open>answered\<close>, overwrites the
  dialog's remote identity with the response's To and its local identity with the
  response's From, retains the response as the last response, and sends one ACK in the same
  step: to the URI of the first contact of the response, to the From URI when the response
  has no contact, with the Via list of the retained INVITE.
\<close>

theorem invite_200_answers_call:
  assumes "map_of (activeCalls s) (h_call_id (m_headers message)) = Some call"
    and "dialog call = Some d"
    and "inviteRequest d = Some invite"
    and "sipSendAvailable s"
    and "m_status message = Some 200"
    and "cseq_method (h_cseq (m_headers message)) = ''INVITE''"
  shows "\<exists>call' d' ack.
           getCallStatus (h_call_id (m_headers message))
             (handleIncomingMessage dg now uuid1 uuid2 message s) = Some call'
         \<and> status call' = Answered
         \<and> dialog call' = Some d'
         \<and> remote d' = h_to (m_headers message)
         \<and> local_id d' = h_from (m_headers message)
         \<and> lastResponse d' = Some message
         \<and> sent (handleIncomingMessage dg now uuid1 uuid2 message s) = sent s @ [ack]
         \<and> m_method ack = Some ''ACK''
         \<and> m_uri ack = Some (firstContactUriOr (h_contact (m_headers message))
                               (uri (h_from (m_headers message))))
         \<and> (h_contact (m_headers message) = []
              \<longrightarrow> m_uri ack = Some (uri (h_from (m_headers message))))
         \<and> (\<forall>c cs. h_contact (m_headers message) = c # cs \<and> contact_uri c \<noteq> []
              \<longrightarrow> m_uri ack = Some (contact_uri c))
         \<and> h_via (m_headers ack) = h_via (m_headers invite)"
  using assms
  by (auto simp: handleIncomingMessage_def handleCallResponse_def getCallStatus_def update_conv'
      sendAck_def ackRequestOf_def firstContactUriOr_def Let_def)

theorem invite_200_answers_call_witness:
  "\<exists>call' ack. getCallStatus ''c1'' answeredService = Some call'
        \<and> status call' = Answered
        \<and> sent answeredService = sent ringingService @ [ack]
        \<and> m_method ack = Some ''ACK''
        \<and> m_uri ack = Some ''sip:15550123456@198.51.100.9:5060''"
proof -
  let ?m = "demoResponse 200 ''c1'' ''INVITE'' 1"
  obtain call d invite where c:
    "activeCalls ringingService = [(''c1'', call)]"
    "dialog call = Some d" "inviteRequest d = Some invite"
    using ringingService_c1 by blast
  have h1: "map_of (activeCalls ringingService) (h_call_id (m_headers ?m)) = Some call"
    using c(1) by (simp add: demoResponse_def)
  have h5: "m_status ?m = Some 200" by (simp add: demoResponse_def)
  have h6: "cseq_method (h_cseq (m_headers ?m)) = ''INVITE''" by (simp add: demoResponse_def)
  from invite_200_answers_call [OF h1 c(2) c(3) ringingService_facts(1) h5 h6,
      of demoDigest 1500 "''u1''" "''u2''"]
  show ?thesis
    by (auto simp: answeredService_def demoResponse_def firstContactUriOr_def)
qed

subsection \<open>Completion of the INVITE send\<close>

lemma startCall_Returned:
  assumes "startCall cid tg branch now dest s = (Returned r, s')"
  shows "r = cid \<and> (\<exists>call. map_of (activeCalls s') cid = Some call \<and> status call = Initiating)"
  using assms
  by (auto simp: startCall_def sipSend_def update_conv' withDialog_def newCall_def Let_def
      split: if_splits)

lemma makeCall_Returned:
  assumes "makeCall dg env start uuid1 uuid2 cid tg branch now dest s = (Returned r, s')"
  shows "\<exists>s1. startCall cid tg branch now dest s1 = (Returned r, s')"
  using assms
  by (auto simp: makeCall_def split: if_splits option.splits prod.splits PromiseState.splits)

text \<open>
  C10. When \<open>makeCall\<close> returns, the call it created is \<open>initiating\<close>; the completion of
  the INVITE send without a transport error sets it to \<open>ringing\<close> with no response
  received in between, so a status query reports \<open>ringing\<close>. The completion callback of
  the re-authenticated INVITE does the same to any call.
\<close>

theorem invite_send_completion_sets_ringing:
  assumes "makeCall dg env start uuid1 uuid2 cid tg branch now dest s = (Returned r, s')"
  shows "r = cid
       \<and> (\<exists>call. getCallStatus cid s' = Some call \<and> status call = Initiating)
       \<and> (\<exists>call. getCallStatus cid (onInviteSent cid None now' s') = Some call
                  \<and> status call = Ringing)
       \<and> (\<forall>call. status (inviteSendCallback None now' call) = Ringing)"
proof -
  obtain s1 where "startCall cid tg branch now dest s1 = (Returned r, s')"
    using makeCall_Returned [OF assms] by blast
  from startCall_Returned [OF this]
  show ?thesis
    by (auto simp: getCallStatus_def onInviteSent_def inviteSendCallback_def update_conv')
qed

theorem invite_send_completion_sets_ringing_witness:
  "(\<exists>call. getCallStatus ''c1'' callingService = Some call \<and> status call = Initiating)
   \<and> (\<exists>call. getCallStatus ''c1'' ringingService = Some call \<and> status call = Ringing)"
  using invite_send_completion_sets_ringing [OF makeCall_registeredService, of 1001]
  by (simp add: ringingService_def)

subsection \<open>hangup\<close>

lemma hangup_unknown: "map_of (activeCalls s) cid = None \<Longrightarrow> hangup now cid s = (False, s)"
  by (simp add: hangup_def)

lemma hangup_False_unchanged: "hangup now cid s = (False, s') \<Longrightarrow> s' = s"
  by (auto simp: hangup_def split: option.splits)

lemma hangupCall_Some:
  "hangupCall s now cid call = Some (call', msgs)
     \<Longrightarrow> call' = call\<lparr>status := Ended, endTime := Some now\<rparr>"
  by (auto simp: hangupCall_def Let_def split: if_splits option.splits)

lemma hangup_True_ended:
  assumes "hangup now cid s = (True, s')"
  shows "\<exists>call'. getCallStatus cid s' = Some call' \<and> status call' = Ended \<and> endTime call' = Some now"
  using assms
  by (auto simp: hangup_def getCallStatus_def update_conv' split: option.splits
      dest!: hangupCall_Some)

lemma hangupCall_available:
  assumes "sipSendAvailable s" and "\<forall>d. dialog call = Some d \<longrightarrow> inviteRequest d \<noteq> None"
  shows "\<exists>msgs. hangupCall s now cid call = Some (call\<lparr>status := Ended, endTime := Some now\<rparr>, msgs)
      \<and> (\<forall>d r invite. status call = Answered \<and> dialog call = Some d \<and> lastResponse d = Some r
             \<and> inviteRequest d = Some invite \<longrightarrow> msgs = [byeRequestOf cid d r invite])
      \<and> (\<forall>d invite. (status call = Ringing \<or> status call = Initiating) \<and> dialog call = Some d
             \<and> inviteRequest d = Some invite \<longrightarrow> msgs = [cancelRequestOf cid invite])
      \<and> (status call = Ended \<or> status call = Failed \<longrightarrow> msgs = [])"
  using assms
  by (cases "status call"; cases "dialog call")
     (auto simp: hangupCall_def Let_def split: option.splits)

text \<open>
  C8 (as the code has it). \<open>hangup\<close> on a tracked call that is already \<open>ended\<close> or
  \<open>failed\<close> returns true and sends nothing, but it is not a no-op on the record: the
  status is set to \<open>ended\<close> and the end time is overwritten with the current time. The
  error text and every other field stay.
\<close>

theorem hangup_terminal_call:
  assumes "map_of (activeCalls s) cid = Some call"
    and "status call = Ended \<or> status call = Failed"
  shows "fst (hangup now cid s) = True
       \<and> sent (snd (hangup now cid s)) = sent s
       \<and> getCallStatus cid (snd (hangup now cid s))
           = Some (call\<lparr>status := Ended, endTime := Some now\<rparr>)
       \<and> snd (hangup now cid s)
           = s\<lparr>activeCalls :=
                 AList.update cid (call\<lparr>status := Ended, endTime := Some now\<rparr>) (activeCalls s)\<rparr>"
  using assms
  by (auto simp: hangup_def hangupCall_def getCallStatus_def update_conv' Let_def)

theorem hangup_terminal_call_witness:
  "fst (hangup 2000 ''c1'' failedService) = True
   \<and> sent (snd (hangup 2000 ''c1'' failedService)) = sent failedService"
proof -
  obtain call where c: "activeCalls failedService = [(''c1'', call)]"
    "status call = Failed"
    using failedService_c1 by blast
  from c(1) have h1: "map_of (activeCalls failedService) ''c1'' = Some call" by simp
  from c(2) have h2: "status call = Ended \<or> status call = Failed" by simp
  from hangup_terminal_call [OF h1 h2, of 2000] show ?thesis by simp
qed

text \<open>The record does change: the call that failed at 1500 is \<open>ended\<close> at 2000 after
  \<open>hangup\<close>.\<close>

theorem hangup_terminal_call_changes_record:
  "map_option status (getCallStatus ''c1'' failedService) = Some Failed
   \<and> map_option endTime (getCallStatus ''c1'' failedService) = Some (Some 1500)
   \<and> map_option status (getCallStatus ''c1'' (snd (hangup 2000 ''c1'' failedService))) = Some Ended
   \<and> map_option endTime (getCallStatus ''c1'' (snd (hangup 2000 ''c1'' failedService)))
       = Some (Some 2000)"
proof -
  obtain call where c: "activeCalls failedService = [(''c1'', call)]"
    "status call = Failed" "endTime call = Some 1500"
    using failedService_c1 by blast
  then show ?thesis
    by (simp add: getCallStatus_def hangup_def hangupCall_def)
qed

text \<open>
  \<open>hangup\<close> case by case: an unknown call; a tracked call whose dialog retains its
  INVITE, with \<open>sip.send\<close> available; what a result of false and a result of true mean.
\<close>

lemma hangup_cases:
  "(map_of (activeCalls s) cid = None \<longrightarrow> hangup now cid s = (False, s))
   \<and> (\<forall>call. map_of (activeCalls s) cid = Some call \<and> sipSendAvailable s
         \<and> (\<forall>d. dialog call = Some d \<longrightarrow> inviteRequest d \<noteq> None)
       \<longrightarrow> (\<exists>msgs.
              hangup now cid s
                = (True, s\<lparr>activeCalls :=
                              AList.update cid (call\<lparr>status := Ended, endTime := Some now\<rparr>)
                                (activeCalls s),
                            sent := sent s @ msgs\<rparr>)
            \<and> (\<forall>d r invite. status call = Answered \<and> dialog call = Some d
                   \<and> lastResponse d = Some r \<and> inviteRequest d = Some invite
                 \<longrightarrow> msgs = [byeRequestOf cid d r invite]
                     \<and> m_uri (byeRequestOf cid d r invite)
                         = Some (firstContactUriOr (h_contact (m_headers r)) (uri (remote d)))
                     \<and> seqOf (byeRequestOf cid d r invite) = cseq d + 1)
            \<and> (\<forall>d invite. (status call = Ringing \<or> status call = Initiating)
                   \<and> dialog call = Some d \<and> inviteRequest d = Some invite
                 \<longrightarrow> msgs = [cancelRequestOf cid invite]
                     \<and> m_uri (cancelRequestOf cid invite) = m_uri invite
                     \<and> h_to (m_headers (cancelRequestOf cid invite)) = h_to (m_headers invite)
                     \<and> h_from (m_headers (cancelRequestOf cid invite)) = h_from (m_headers invite)
                     \<and> h_via (m_headers (cancelRequestOf cid invite)) = h_via (m_headers invite)
                     \<and> seqOf (cancelRequestOf cid invite) = seqOf invite)
            \<and> (status call = Ended \<or> status call = Failed \<longrightarrow> msgs = [])))
   \<and> (\<forall>s'. hangup now cid s = (False, s') \<longrightarrow> s' = s)
   \<and> (\<forall>s'. hangup now cid s = (True, s')
         \<longrightarrow> (\<exists>call'. getCallStatus cid s' = Some call' \<and> status call' = Ended
                      \<and> endTime call' = Some now))"
proof (intro conjI allI impI)
  assume "map_of (activeCalls s) cid = None"
  then show "hangup now cid s = (False, s)" by (rule hangup_unknown)
next
  fix call
  assume a: "map_of (activeCalls s) cid = Some call \<and> sipSendAvailable s
             \<and> (\<forall>d. dialog call = Some d \<longrightarrow> inviteRequest d \<noteq> None)"
  then obtain msgs where m:
    "hangupCall s now cid call = Some (call\<lparr>status := Ended, endTime := Some now\<rparr>, msgs)"
    "\<forall>d r invite. status call = Answered \<and> dialog call = Some d \<and> lastResponse d = Some r
        \<and> inviteRequest d = Some invite \<longrightarrow> msgs = [byeRequestOf cid d r invite]"
    "\<forall>d invite. (status call = Ringing \<or> status call = Initiating) \<and> dialog call = Some d
        \<and> inviteRequest d = Some invite \<longrightarrow> msgs = [cancelRequestOf cid invite]"
    "status call = Ended \<or> status call = Failed \<longrightarrow> msgs = []"
    using hangupCall_available [of s call now cid] by blast
  show "\<exists>msgs.
          hangup now cid s
            = (True, s\<lparr>activeCalls :=
                          AList.update cid (call\<lparr>status := Ended, endTime := Some now\<rparr>)
                            (activeCalls s),
                        sent := sent s @ msgs\<rparr>)
        \<and> (\<forall>d r invite. status call = Answered \<and> dialog call = Some d
               \<and> lastResponse d = Some r \<and> inviteRequest d = Some invite
             \<longrightarrow> msgs = [byeRequestOf cid d r invite]
                 \<and> m_uri (byeRequestOf cid d r invite)
                     = Some (firstContactUriOr (h_contact (m_headers r)) (uri (remote d)))
                 \<and> seqOf (byeRequestOf cid d r invite) = cseq d + 1)
        \<and> (\<forall>d invite. (status call = Ringing \<or> status call = Initiating)
               \<and> dialog call = Some d \<and> inviteRequest d = Some invite
             \<longrightarrow> msgs = [cancelRequestOf cid invite]
                 \<and> m_uri (cancelRequestOf cid invite) = m_uri invite
                 \<and> h_to (m_headers (cancelRequestOf cid invite)) = h_to (m_headers invite)
                 \<and> h_from (m_headers (cancelRequestOf cid invite)) = h_from (m_headers invite)
                 \<and> h_via (m_headers (cancelRequestOf cid invite)) = h_via (m_headers invite)
                 \<and> seqOf (cancelRequestOf cid invite) = seqOf invite)
        \<and> (status call = Ended \<or> status call = Failed \<longrightarrow> msgs = [])"
  proof (intro exI [of _ msgs] conjI)
    show "hangup now cid s
            = (True, s\<lparr>activeCalls :=
                          AList.update cid (call\<lparr>status := Ended, endTime := Some now\<rparr>)
                            (activeCalls s),
                        sent := sent s @ msgs\<rparr>)"
      using a m(1) by (simp add: hangup_def)
  qed (use m in \<open>simp_all add: byeRequestOf_def cancelRequestOf_def seqOf_def\<close>)
next
  fix s' assume "hangup now cid s = (False, s')"
  then show "s' = s" by (rule hangup_False_unchanged)
next
  fix s' assume "hangup now cid s = (True, s')"
  then show "\<exists>call'. getCallStatus cid s' = Some call' \<and> status call' = Ended
                    \<and> endTime call' = Some now"
    by (rule hangup_True_ended)
qed

subsection \<open>Registration\<close>

lemma register_sent_fresh:
  "sipSendAvailable s \<Longrightarrow>
   \<exists>rq. sent (register dg None uuid1 uuid2 s) = sent s @ [rq]
       \<and> m_method rq = Some ''REGISTER'' \<and> h_authorization (m_headers rq) = None"
  by (simp add: register_def sipSend_def registerRequestOf_def Let_def)

lemma timeoutMessage_distinguishes:
  assumes "NODE_ENV envD = Some ''development''" and "NODE_ENV envP \<noteq> Some ''development''"
  shows "timeoutMessage envD timeout n \<noteq> timeoutMessage envP timeout n"
  using assms
  by (auto simp: timeoutMessage_def developmentGuidance_def productionGuidance_def Let_def
      split: option.splits)

text \<open>
  The timer's callback when registration has not succeeded: below the maximum, a new
  (counted, unsigned) registration attempt is issued and no promise is touched; at the
  maximum, the callback calls the reject function of its promise with the timeout message,
  which rejects the promise if it is still pending, and nothing is sent. The message for
  \<open>NODE_ENV = development\<close> differs from the message for every other environment.
\<close>

lemma registrationTimeout_cases:
  assumes "\<not> registered s" and "pid < length (promises s)"
  shows "(registrationAttempts s < maxRegistrationAttempts s \<longrightarrow>
            promises (registrationTimeout dg env pid timeout uuid1 uuid2 s) = promises s
          \<and> registrationAttempts (registrationTimeout dg env pid timeout uuid1 uuid2 s)
              = registrationAttempts s + 1
          \<and> (sipSendAvailable s \<longrightarrow>
               (\<exists>rq. sent (registrationTimeout dg env pid timeout uuid1 uuid2 s) = sent s @ [rq]
                    \<and> m_method rq = Some ''REGISTER'' \<and> h_authorization (m_headers rq) = None)))
       \<and> (maxRegistrationAttempts s \<le> registrationAttempts s \<longrightarrow>
            promises (registrationTimeout dg env pid timeout uuid1 uuid2 s) ! pid
              = rejectPromise (timeoutMessage env timeout (registrationAttempts s)) (promises s ! pid)
          \<and> (p_state (promises s ! pid) = Pending \<longrightarrow>
               p_state (promises (registrationTimeout dg env pid timeout uuid1 uuid2 s) ! pid)
                 = Rejected (timeoutMessage env timeout (registrationAttempts s)))
          \<and> sent (registrationTimeout dg env pid timeout uuid1 uuid2 s) = sent s
          \<and> registrationAttempts (registrationTimeout dg env pid timeout uuid1 uuid2 s)
              = registrationAttempts s)
       \<and> (\<forall>envD envP. NODE_ENV envD = Some ''development'' \<and> NODE_ENV envP \<noteq> Some ''development''
            \<longrightarrow> timeoutMessage envD timeout (registrationAttempts s)
                  \<noteq> timeoutMessage envP timeout (registrationAttempts s))"
  using assms register_sent_fresh [of s dg uuid1 uuid2] register_fresh_fields [of dg uuid1 uuid2 s]
    timeoutMessage_distinguishes
  by (auto simp: registrationTimeout_def rejectPromise_def)

text \<open>
  C2 (the code at a failing input). The third registration attempt is answered with 403:
  the response handler rejects the second promise and clears its handles. The service is
  not registered and the attempts are at the maximum, so when the timer of that promise
  fires it calls the promise's reject function a second time.
\<close>

theorem timer_rejects_rejected_promise:
  "p_state (promises rejectedService ! 1)
     = Rejected (''Registration failed with status '' @ string_of_nat 403)
   \<and> p_calls (promises rejectedService ! 1)
     = [RejectCall (''Registration failed with status '' @ string_of_nat 403)]
   \<and> timers rejectedService = [(1, 20000)]
   \<and> registered rejectedService = False
   \<and> registrationAttempts rejectedService = maxRegistrationAttempts rejectedService
   \<and> p_calls (promises timedOutService ! 1)
     = [RejectCall (''Registration failed with status '' @ string_of_nat 403),
        RejectCall (timeoutMessage demoEnv 20000 3)]"
  by (simp add: timedOutService_def fireTimer_def registrationTimeout_def rejectedService_facts
      rejectPromise_def)

text \<open>
  C6 (as the code has it). A 401 or 407 for the REGISTER, with a challenge the helper
  accepts and signs for, makes the service send a signed REGISTER in the same registration
  dialog (same Call-ID and From tag) whose sequence number is one larger than that of the
  challenged REGISTER, without counting an attempt. After a following 200 the service is
  registered and the pending promise is fulfilled by one call of its resolve function.
\<close>

theorem register_challenge_then_ok:
  assumes ch: "m_status ch = Some 401 \<or> m_status ch = Some 407"
    and chm: "cseq_method (h_cseq (m_headers ch)) = ''REGISTER''"
    and sess: "as_callId (authSession s) = Some c" "c \<noteq> []"
      "as_tag (authSession s) = Some t" "t \<noteq> []" "as_cseq (authSession s) = Some n"
    and chal: "challenge dg (as_digest (authSession s)) ch = Inr ctx"
    and sign: "\<forall>rq. \<exists>r. signRequest dg ctx rq (sipUsername s, sipPassword s) = Inr r"
    and send: "sipSendAvailable s"
    and fut: "registrationResolve s = Some pid" "pid < length (promises s)"
      "p_state (promises s ! pid) = Pending"
    and ok: "m_status ok = Some 200" "cseq_method (h_cseq (m_headers ok)) = ''REGISTER''"
  shows "\<exists>rq. sent (handleIncomingMessage dg now uuid1 uuid2 ch s) = sent s @ [rq]
      \<and> m_method rq = Some ''REGISTER''
      \<and> h_call_id (m_headers rq) = c
      \<and> tag (h_from (m_headers rq)) = Some t
      \<and> seqOf rq = n + 1
      \<and> h_authorization (m_headers rq) \<noteq> None
      \<and> registrationAttempts (handleIncomingMessage dg now uuid1 uuid2 ch s)
          = registrationAttempts s
      \<and> registered (handleIncomingMessage dg now' uuid3 uuid4 ok
                       (handleIncomingMessage dg now uuid1 uuid2 ch s))
      \<and> p_state (promises (handleIncomingMessage dg now' uuid3 uuid4 ok
                              (handleIncomingMessage dg now uuid1 uuid2 ch s)) ! pid) = Fulfilled
      \<and> p_calls (promises (handleIncomingMessage dg now' uuid3 uuid4 ok
                              (handleIncomingMessage dg now uuid1 uuid2 ch s)) ! pid)
          = p_calls (promises s ! pid) @ [ResolveCall]"
proof -
  let ?s0 = "s\<lparr>authSession := (authSession s)\<lparr>as_digest := ctx\<rparr>\<rparr>"
  let ?rq = "registerRequestOf
               (?s0\<lparr>authSession := (authSession ?s0)\<lparr>as_callId := Some c, as_tag := Some t,
                                                     as_cseq := Some (n + 1)\<rparr>\<rparr>) c t (n + 1)"
  obtain ctx' a where sg: "signRequest dg ctx ?rq (sipUsername s, sipPassword s) = Inr (ctx', a)"
    using sign by (metis surj_pair)
  obtain code where code: "m_status ch = Some code" "code = 401 \<or> code = 407"
    using ch by auto
  have s1: "handleIncomingMessage dg now uuid1 uuid2 ch s
            = sipSend (withAuthorization a ?rq)
                (?s0\<lparr>authSession := (authSession ?s0)\<lparr>as_callId := Some c, as_tag := Some t,
                                                      as_cseq := Some (n + 1), as_digest := ctx'\<rparr>\<rparr>)"
    using code chm sess chal sg send
    by (auto simp: handleIncomingMessage_def handleRegisterResponse_def register_def Let_def)
  show ?thesis
    unfolding s1 using ok fut
    by (simp add: handleIncomingMessage_def handleRegisterResponse_def sipSend_def
        withAuthorization_def registerRequestOf_def seqOf_def resolvePromise_def Let_def)
qed

theorem register_challenge_then_ok_witness:
  "\<exists>rq. sent (handleIncomingMessage demoDigest 10 ''u1'' ''u2''
                 (demoResponse 401 ''reg-call'' ''REGISTER'' 1) initializedService)
           = sent initializedService @ [rq]
       \<and> seqOf rq = 2
       \<and> registered (handleIncomingMessage demoDigest 20 ''u1'' ''u2''
                        (demoResponse 200 ''reg-call'' ''REGISTER'' 2)
                        (handleIncomingMessage demoDigest 10 ''u1'' ''u2''
                           (demoResponse 401 ''reg-call'' ''REGISTER'' 1) initializedService))"
proof -
  let ?ch = "demoResponse 401 ''reg-call'' ''REGISTER'' 1"
  let ?ok = "demoResponse 200 ''reg-call'' ''REGISTER'' 2"
  have ch: "m_status ?ch = Some 401 \<or> m_status ?ch = Some 407"
    and chm: "cseq_method (h_cseq (m_headers ?ch)) = ''REGISTER''"
    and ok: "m_status ?ok = Some 200" "cseq_method (h_cseq (m_headers ?ok)) = ''REGISTER''"
    by (simp_all add: demoResponse_def)
  have sess: "as_callId (authSession initializedService) = Some ''reg-call''" "''reg-call'' \<noteq> []"
    "as_tag (authSession initializedService) = Some ''reg-tag''" "''reg-tag'' \<noteq> []"
    "as_cseq (authSession initializedService) = Some 1"
    by (simp_all add: initializedService_facts)
  have chal: "challenge demoDigest (as_digest (authSession initializedService)) ?ch
                = Inr [(''nonce'', ''n1'')]"
    by (simp add: demoDigest_def initializedService_facts)
  have sign: "\<forall>rq. \<exists>r. signRequest demoDigest [(''nonce'', ''n1'')] rq
                (sipUsername initializedService, sipPassword initializedService) = Inr r"
    by (simp add: demoDigest_def)
  have fut: "registrationResolve initializedService = Some 0"
    "0 < length (promises initializedService)"
    "p_state (promises initializedService ! 0) = Pending"
    by (simp_all add: initializedService_facts)
  from register_challenge_then_ok [OF ch chm sess chal sign initializedService_facts(3) fut ok,
      of 10 "''u1''" "''u2''" 20 "''u1''" "''u2''"]
  show ?thesis by auto
qed

text \<open>The sequence number is not unchanged: the challenged REGISTER carries 1, the signed
  one 2.\<close>

theorem challenged_register_advances_sequence:
  "map seqOf (sent initializedService) = [1]
   \<and> map seqOf (sent (handleIncomingMessage demoDigest 10 ''u1'' ''u2''
                        (demoResponse 401 ''reg-call'' ''REGISTER'' 1) initializedService)) = [1, 2]"
  by (simp add: handleIncomingMessage_def handleRegisterResponse_def demoResponse_def
      demoDigest_def register_def sipSend_def seqOf_def withAuthorization_def
      registerRequestOf_def initializedService_facts Let_def)

section \<open>Every event keeps the invariant of a run\<close>

lemma request_shapes:
  "seqOf (withAuthorization a m) = seqOf m"
  "seqOf (withCSeqSeq n m) = n"
  "seqOf (byeRequestOf cid d r invite) = cseq d + 1"
  "seqOf (infoRequestOf cid digits d r invite) = cseq d + 1"
  "\<not> counted (ackRequestOf call resp via)"
  "\<not> hasMethod ''BYE'' (ackRequestOf call resp via)"
  "\<not> counted (cancelRequestOf cid invite)"
  "\<not> hasMethod ''BYE'' (cancelRequestOf cid invite)"
  "\<not> counted (byeRequestOf cid d r invite)"
  "counted (infoRequestOf cid digits d r invite)"
  by (simp_all add: seqOf_def withAuthorization_def withCSeqSeq_def byeRequestOf_def
      infoRequestOf_def ackRequestOf_def cancelRequestOf_def counted_def hasMethod_def)

lemma reInviteWithAuth_step:
  assumes "dialogOk call d" and "reInviteWithAuth dg s now call authResponse = (call', msgs)"
  shows "\<exists>d'. dialogOk call' d' \<and> advances d d' msgs"
  using assms
  by (auto simp: reInviteWithAuth_def dialogOk_def advances_def request_shapes Let_def
      split: option.splits sum.splits prod.splits if_splits)

lemma handleCallResponse_step:
  assumes "dialogOk call d" and "handleCallResponse dg s now message code call = (call', msgs)"
  shows "\<exists>d'. dialogOk call' d' \<and> advances d d' msgs"
proof (cases "(code = 401 \<or> code = 407) \<and> cseq_method (h_cseq (m_headers message)) = ''INVITE''")
  case True
  with assms(2) have "reInviteWithAuth dg s now call message = (call', msgs)"
    by (auto simp: handleCallResponse_def)
  from reInviteWithAuth_step [OF assms(1) this] show ?thesis .
next
  case False
  with assms show ?thesis
    by (auto simp: handleCallResponse_def sendAck_def dialogOk_def advances_def request_shapes
        Let_def split: if_splits)
qed

lemma hangupCall_step:
  assumes "dialogOk call d" and "hangupCall s now cid call = Some (call', msgs)"
  shows "\<exists>d'. dialogOk call' d' \<and> advances d d' msgs"
  using assms
  by (auto simp: hangupCall_def dialogOk_def advances_def request_shapes Let_def
      split: option.splits if_splits)

lemma sendDTMFCall_step:
  assumes "dialogOk call d" and "sendDTMFCall s cid digits call = (ok, call', msgs)"
  shows "\<exists>d'. dialogOk call' d' \<and> advances d d' msgs"
  using assms
  by (auto simp: sendDTMFCall_def dialogOk_def advances_def request_shapes Let_def
      split: option.splits if_splits)

lemma inviteSendCallback_step:
  assumes "dialogOk call d"
  shows "dialogOk (inviteSendCallback err now call) d"
  using assms by (auto simp: inviteSendCallback_def dialogOk_def split: option.splits)

lemma remoteBye_step:
  assumes "dialogOk call d"
  shows "dialogOk (remoteBye now call) d"
  using assms by (auto simp: remoteBye_def dialogOk_def)

lemma callInv_extend:
  assumes inv: "callInv (call, out)" and d: "dialog call = Some d"
    and ok: "dialogOk call' d'" and adv: "advances d d' msgs"
  shows "callInv (call', out @ msgs)"
proof -
  from inv d have bound: "\<forall>m \<in> set out. counted m \<longrightarrow> seqOf m \<le> cseq d"
    and sorted: "sorted_wrt seqBefore out"
    by (auto simp: callInv_def dialogOk_def)
  from adv have "length msgs \<le> 1" by (simp add: advances_def)
  then have one: "sorted_wrt seqBefore msgs"
    by (cases msgs) auto
  have cross: "\<forall>x \<in> set out. \<forall>y \<in> set msgs. seqBefore x y"
    using bound adv by (fastforce simp: seqBefore_def advances_def)
  have bound': "\<forall>m \<in> set (out @ msgs). counted m \<longrightarrow> seqOf m \<le> cseq d'"
    using bound adv by (fastforce simp: advances_def)
  show ?thesis
    using ok bound' sorted one cross
    by (auto simp: callInv_def sorted_wrt_append)
qed

lemma callInv_same_out:
  assumes "callInv (call, out)" and "dialog call = Some d" and "dialogOk call' d"
  shows "callInv (call', out)"
  using callInv_extend [OF assms(1,2,3), of "[]"] by (simp add: advances_def)

lemma callStep_keeps_callInv:
  assumes "callInv st"
  shows "callInv (callStep dg s cid e st)"
proof -
  obtain call out where st: "st = (call, out)" by (cases st)
  obtain sendOk now ev where e: "e = (sendOk, now, ev)" by (cases e)
  from assms st obtain d where d: "dialogOk call d" by (auto simp: callInv_def)
  then have dd: "dialog call = Some d" by (simp add: dialogOk_def)
  have inv: "callInv (call, out)" using assms st by simp
  show ?thesis
  proof (cases ev)
    case (Response message)
    show ?thesis
    proof (cases "m_status message")
      case None
      with Response st e inv show ?thesis by (simp add: callStep_def)
    next
      case (Some code)
      show ?thesis
      proof (cases "code = 0 \<or> cseq_method (h_cseq (m_headers message)) = ''REGISTER''")
        case True
        with Some Response st e inv show ?thesis by (auto simp: callStep_def)
      next
        case False
        obtain call' msgs where r:
          "handleCallResponse dg (s\<lparr>sipSendAvailable := sendOk\<rparr>) now message code call
             = (call', msgs)"
          by (cases "handleCallResponse dg (s\<lparr>sipSendAvailable := sendOk\<rparr>) now message code call")
        from handleCallResponse_step [OF d r] obtain d' where
          "dialogOk call' d'" "advances d d' msgs" by blast
        from callInv_extend [OF inv dd this]
        show ?thesis using False Some Response st e r by (simp add: callStep_def)
      qed
    qed
  next
    case (InviteSent err)
    from callInv_same_out [OF inv dd inviteSendCallback_step [OF d]]
    show ?thesis using InviteSent st e by (simp add: callStep_def)
  next
    case Hangup
    show ?thesis
    proof (cases "hangupCall (s\<lparr>sipSendAvailable := sendOk\<rparr>) now cid call")
      case None
      with Hangup st e inv show ?thesis by (simp add: callStep_def)
    next
      case (Some r)
      obtain call' msgs where r: "r = (call', msgs)" by (cases r)
      from hangupCall_step [OF d Some [unfolded r]] obtain d' where
        "dialogOk call' d'" "advances d d' msgs" by blast
      from callInv_extend [OF inv dd this]
      show ?thesis using Some r Hangup st e by (simp add: callStep_def)
    qed
  next
    case (DTMF digits)
    obtain ok call' msgs where r:
      "sendDTMFCall (s\<lparr>sipSendAvailable := sendOk\<rparr>) cid digits call = (ok, call', msgs)"
      by (cases "sendDTMFCall (s\<lparr>sipSendAvailable := sendOk\<rparr>) cid digits call") auto
    from sendDTMFCall_step [OF d r] obtain d' where
      "dialogOk call' d'" "advances d d' msgs" by blast
    from callInv_extend [OF inv dd this]
    show ?thesis using r DTMF st e by (simp add: callStep_def)
  next
    case RemoteBye
    from callInv_same_out [OF inv dd remoteBye_step [OF d]]
    show ?thesis using RemoteBye st e by (simp add: callStep_def)
  qed
qed

lemma runCall_keeps_callInv:
  "callInv st \<Longrightarrow> callInv (runCall dg s cid evs st)"
  unfolding runCall_def
  by (induction evs arbitrary: st) (simp_all add: callStep_keeps_callInv)

lemma placedCall_callInv: "callInv (placedCall s cid tg branch now dest)"
  by (simp add: placedCall_def callInv_def dialogOk_def withDialog_def newCall_def
      inviteRequestOf_def seqOf_def Let_def)

section \<open>The service's operations act on one call as the events do\<close>

lemma same_send: "s\<lparr>sipSendAvailable := sipSendAvailable s\<rparr> = s"
  by simp

lemma register_activeCalls: "activeCalls (register dg a uuid1 uuid2 s) = activeCalls s"
  by (simp add: register_def sipSend_def Let_def split: option.splits sum.splits prod.splits)

lemma startCall_placedCall:
  assumes "startCall cid tg branch now dest s = (Returned r, s')"
  shows "map_of (activeCalls s') cid = Some (fst (placedCall s cid tg branch now dest))
       \<and> sent s' = sent s @ snd (placedCall s cid tg branch now dest)"
  using assms
  by (auto simp: startCall_def placedCall_def sipSend_def update_conv' Let_def split: if_splits)

lemma handleIncomingMessage_callStep:
  assumes "map_of (activeCalls s) cid = Some call"
    and "h_call_id (m_headers message) = cid"
    and "cseq_method (h_cseq (m_headers message)) \<noteq> ''REGISTER''"
  shows "\<exists>call' msgs.
           callStep dg s cid (sipSendAvailable s, now, Response message) (call, out)
             = (call', out @ msgs)
         \<and> map_of (activeCalls (handleIncomingMessage dg now uuid1 uuid2 message s)) cid = Some call'
         \<and> sent (handleIncomingMessage dg now uuid1 uuid2 message s) = sent s @ msgs"
  using assms
  by (auto simp: handleIncomingMessage_def callStep_def same_send update_conv'
      split: option.splits prod.splits)

lemma hangup_callStep:
  assumes "map_of (activeCalls s) cid = Some call"
  shows "\<exists>call' msgs.
           callStep dg s cid (sipSendAvailable s, now, Hangup) (call, out) = (call', out @ msgs)
         \<and> map_of (activeCalls (snd (hangup now cid s))) cid = Some call'
         \<and> sent (snd (hangup now cid s)) = sent s @ msgs"
  using assms
  by (auto simp: hangup_def callStep_def same_send update_conv' split: option.splits)

lemma sendDTMF_callStep:
  assumes "map_of (activeCalls s) cid = Some call"
  shows "\<exists>call' msgs.
           callStep dg s cid (sipSendAvailable s, now, DTMF digits) (call, out) = (call', out @ msgs)
         \<and> map_of (activeCalls (snd (sendDTMF cid digits s))) cid = Some call'
         \<and> sent (snd (sendDTMF cid digits s)) = sent s @ msgs"
  using assms
  by (auto simp: sendDTMF_def callStep_def same_send update_conv' split: prod.splits)

lemma onInviteSent_callStep:
  assumes "map_of (activeCalls s) cid = Some call"
  shows "callStep dg s cid (sendOk, now, InviteSent err) (call, out)
           = (inviteSendCallback err now call, out)
       \<and> map_of (activeCalls (onInviteSent cid err now s)) cid
           = Some (inviteSendCallback err now call)
       \<and> sent (onInviteSent cid err now s) = sent s"
  using assms by (simp add: onInviteSent_def callStep_def update_conv')

lemma handleIncomingRequest_callStep:
  assumes "map_of (activeCalls s) cid = Some call"
    and "m_method request = Some ''BYE''" and "h_call_id (m_headers request) = cid"
  shows "callStep dg s cid (sendOk, now, RemoteBye) (call, out) = (remoteBye now call, out)
       \<and> map_of (activeCalls (handleIncomingRequest now request s)) cid = Some (remoteBye now call)"
  using assms
  by (simp add: handleIncomingRequest_def callStep_def sipSend_def update_conv' Let_def)

section \<open>Properties of one call's run\<close>

subsection \<open>Status\<close>

lemma failedService_180:
  "map_option status (getCallStatus ''c1''
      (handleIncomingMessage demoDigest 1600 ''u1'' ''u2'' (demoResponse 180 ''c1'' ''INVITE'' 1)
         failedService)) = Some Ringing"
proof -
  obtain call where "activeCalls failedService = [(''c1'', call)]"
    using failedService_c1 by blast
  then show ?thesis
    by (simp add: handleIncomingMessage_def handleCallResponse_def getCallStatus_def
        demoResponse_def)
qed

text \<open>
  C1 (as the code has it). Through every sequence of responses, send completions, hangups,
  DTMF requests and inbound BYEs, a call placed by \<open>makeCall\<close> keeps a dialog that retains
  its INVITE, and whenever it is answered the dialog holds the answering response and its
  remote identity is that response's To header. The status itself follows no edge list: each
  event sets it whatever it was before, the terminal states included. A 100 leaves it; 180
  and 183 set \<open>ringing\<close>; a 200 for the INVITE sets \<open>answered\<close>; 486 and 487 set
  \<open>ended\<close>; any other code from 400 on except 401 and 407 sets \<open>failed\<close>; an inbound BYE
  and a \<open>hangup\<close> whose send does not throw set \<open>ended\<close>; the completion of an INVITE
  send without error sets \<open>ringing\<close>.
\<close>

theorem call_status_set_by_events:
  assumes "runCall dg s cid evs (placedCall s cid tg branch t0 dest) = (call, out)"
  shows "(\<exists>d. dialog call = Some d \<and> inviteRequest d \<noteq> None
             \<and> (status call = Answered
                  \<longrightarrow> (\<exists>r. lastResponse d = Some r \<and> remote d = h_to (m_headers r))))
       \<and> (\<forall>sendOk now m code.
             m_status m = Some code \<and> code \<noteq> 0
             \<and> cseq_method (h_cseq (m_headers m)) \<noteq> ''REGISTER''
           \<longrightarrow> (code = 100
                  \<longrightarrow> status (fst (callStep dg s cid (sendOk, now, Response m) (call, out)))
                        = status call)
               \<and> (code = 180 \<or> code = 183
                  \<longrightarrow> status (fst (callStep dg s cid (sendOk, now, Response m) (call, out)))
                        = Ringing)
               \<and> (code = 200 \<and> cseq_method (h_cseq (m_headers m)) = ''INVITE''
                  \<longrightarrow> status (fst (callStep dg s cid (sendOk, now, Response m) (call, out)))
                        = Answered)
               \<and> (code = 486 \<or> code = 487
                  \<longrightarrow> status (fst (callStep dg s cid (sendOk, now, Response m) (call, out)))
                        = Ended)
               \<and> (400 \<le> code \<and> code \<noteq> 401 \<and> code \<noteq> 407 \<and> code \<noteq> 486 \<and> code \<noteq> 487
                  \<longrightarrow> status (fst (callStep dg s cid (sendOk, now, Response m) (call, out)))
                        = Failed))
       \<and> (\<forall>sendOk now.
             status (fst (callStep dg s cid (sendOk, now, RemoteBye) (call, out))) = Ended)
       \<and> (\<forall>now. status (fst (callStep dg s cid (True, now, Hangup) (call, out))) = Ended)
       \<and> (\<forall>sendOk now.
             status (fst (callStep dg s cid (sendOk, now, InviteSent None) (call, out))) = Ringing)"
proof -
  have "callInv (call, out)"
    using runCall_keeps_callInv [OF placedCall_callInv, of dg s cid evs s cid tg branch t0 dest]
      assms by simp
  then obtain d where d: "dialogOk call d" by (auto simp: callInv_def)
  have p1: "\<exists>d. dialog call = Some d \<and> inviteRequest d \<noteq> None
             \<and> (status call = Answered
                  \<longrightarrow> (\<exists>r. lastResponse d = Some r \<and> remote d = h_to (m_headers r)))"
    using d by (auto simp: dialogOk_def)
  have p2: "\<forall>sendOk now m code.
             m_status m = Some code \<and> code \<noteq> 0
             \<and> cseq_method (h_cseq (m_headers m)) \<noteq> ''REGISTER''
           \<longrightarrow> (code = 100
                  \<longrightarrow> status (fst (callStep dg s cid (sendOk, now, Response m) (call, out)))
                        = status call)
               \<and> (code = 180 \<or> code = 183
                  \<longrightarrow> status (fst (callStep dg s cid (sendOk, now, Response m) (call, out)))
                        = Ringing)
               \<and> (code = 200 \<and> cseq_method (h_cseq (m_headers m)) = ''INVITE''
                  \<longrightarrow> status (fst (callStep dg s cid (sendOk, now, Response m) (call, out)))
                        = Answered)
               \<and> (code = 486 \<or> code = 487
                  \<longrightarrow> status (fst (callStep dg s cid (sendOk, now, Response m) (call, out)))
                        = Ended)
               \<and> (400 \<le> code \<and> code \<noteq> 401 \<and> code \<noteq> 407 \<and> code \<noteq> 486 \<and> code \<noteq> 487
                  \<longrightarrow> status (fst (callStep dg s cid (sendOk, now, Response m) (call, out)))
                        = Failed)"
    by (auto simp: callStep_def handleCallResponse_def Let_def split: option.splits)
  have p3: "\<forall>sendOk now.
             status (fst (callStep dg s cid (sendOk, now, RemoteBye) (call, out))) = Ended"
    by (simp add: callStep_def remoteBye_def)
  have p4: "\<forall>now. status (fst (callStep dg s cid (True, now, Hangup) (call, out))) = Ended"
  proof
    fix now
    have "\<forall>d. dialog call = Some d \<longrightarrow> inviteRequest d \<noteq> None"
      using d by (auto simp: dialogOk_def)
    with hangupCall_available [of "s\<lparr>sipSendAvailable := True\<rparr>" call now cid]
    obtain msgs where
      "hangupCall (s\<lparr>sipSendAvailable := True\<rparr>) now cid call
         = Some (call\<lparr>status := Ended, endTime := Some now\<rparr>, msgs)"
      by auto
    then show "status (fst (callStep dg s cid (True, now, Hangup) (call, out))) = Ended"
      by (simp add: callStep_def)
  qed
  have p5: "\<forall>sendOk now.
             status (fst (callStep dg s cid (sendOk, now, InviteSent None) (call, out))) = Ringing"
    by (simp add: callStep_def inviteSendCallback_def)
  from p1 p2 p3 p4 p5 show ?thesis by blast
qed

theorem call_status_set_by_events_witness:
  "status (fst (callStep demoDigest registeredService ''c1''
                  (True, 1600, Response (demoResponse 180 ''c1'' ''INVITE'' 1)) failedRun))
     = Ringing
   \<and> (\<exists>d. dialog (fst failedRun) = Some d \<and> inviteRequest d \<noteq> None)"
proof -
  have run: "runCall demoDigest registeredService ''c1''
       [(True, 1001, InviteSent None),
        (True, 1500, Response (demoResponse 503 ''c1'' ''INVITE'' 1))]
       (placedCall registeredService ''c1'' ''t1'' ''b1'' 1000 ''+1 (555) 012-3456'')
     = (fst failedRun, snd failedRun)"
    by (simp add: failedRun_def)
  have m: "m_status (demoResponse 180 ''c1'' ''INVITE'' 1) = Some 180 \<and> (180::nat) \<noteq> 0
           \<and> cseq_method (h_cseq (m_headers (demoResponse 180 ''c1'' ''INVITE'' 1))) \<noteq> ''REGISTER''"
    by (simp add: demoResponse_def)
  from call_status_set_by_events [OF run] m show ?thesis
    by (metis prod.collapse)
qed

text \<open>A terminal state is left, along no legal edge: the call that failed on a 503 is
  \<open>ringing\<close> after a late 180.\<close>

theorem terminal_call_rings_again:
  "map_option status (getCallStatus ''c1'' failedService) = Some Failed
   \<and> map_option status (getCallStatus ''c1''
        (handleIncomingMessage demoDigest 1600 ''u1'' ''u2'' (demoResponse 180 ''c1'' ''INVITE'' 1)
           failedService)) = Some Ringing
   \<and> \<not> legalEdge_spec Failed Ringing"
proof -
  obtain call where "activeCalls failedService = [(''c1'', call)]" "status call = Failed"
    using failedService_c1 by blast
  then show ?thesis
    using failedService_180 by (simp add: getCallStatus_def legalEdge_spec_def)
qed

subsection \<open>Sequence numbers\<close>

lemma reinvitedService_c1:
  "\<exists>call d invite. activeCalls reinvitedService = [(''c1'', call)]
     \<and> status call = Ringing \<and> dialog call = Some d \<and> lastResponse d = None
     \<and> inviteRequest d = Some invite \<and> seqOf invite = 2 \<and> m_method invite = Some ''INVITE''"
proof -
  obtain call d invite where c: "activeCalls ringingService = [(''c1'', call)]"
    "status call = Ringing" "dialog call = Some d" "inviteRequest d = Some invite"
    "lastResponse d = None" "cseq d = 1" "m_method invite = Some ''INVITE''"
    using ringingService_c1 by blast
  then show ?thesis
    by (simp add: reinvitedService_def handleIncomingMessage_def handleCallResponse_def
        reInviteWithAuth_def demoResponse_def demoDigest_def ringingService_facts
        withAuthorization_def withCSeqSeq_def seqOf_def Let_def)
qed

lemma reinvitedService_facts:
  "sipSendAvailable reinvitedService"
  "map seqOf (sent reinvitedService) = [1, 1, 2]"
  "map m_method (sent reinvitedService) = [Some ''REGISTER'', Some ''INVITE'', Some ''INVITE'']"
proof -
  obtain call d invite where c: "activeCalls ringingService = [(''c1'', call)]"
    "status call = Ringing" "dialog call = Some d" "inviteRequest d = Some invite"
    "lastResponse d = None" "cseq d = 1" "m_method invite = Some ''INVITE''"
    using ringingService_c1 by blast
  then show "sipSendAvailable reinvitedService"
    "map seqOf (sent reinvitedService) = [1, 1, 2]"
    "map m_method (sent reinvitedService) = [Some ''REGISTER'', Some ''INVITE'', Some ''INVITE'']"
    by (simp_all add: reinvitedService_def handleIncomingMessage_def handleCallResponse_def
        reInviteWithAuth_def demoResponse_def demoDigest_def ringingService_facts
        callingService_facts withAuthorization_def withCSeqSeq_def seqOf_def Let_def)
qed

lemma demoRun_facts:
  "map m_method (snd demoRun) = [Some ''INVITE'', Some ''ACK'', Some ''INFO'', Some ''BYE'']"
  "map seqOf (snd demoRun) = [1, 1, 2, 3]"
  by (simp_all add: demoRun_def runCall_def callStep_def placedCall_def withDialog_def
      newCall_def inviteSendCallback_def handleCallResponse_def sendAck_def sendDTMFCall_def
      hangupCall_def demoResponse_def request_shapes seqOf_def inviteRequestOf_def
      ackRequestOf_def infoRequestOf_def byeRequestOf_def isDigit_def Let_def)

text \<open>
  C3 (as the code has it). Within one call's dialog, the sequence numbers of the requests
  that advance the dialog counter, the INVITE, every re-authenticated INVITE and every
  INFO, are strictly increasing in the order sent, and every BYE carries a number strictly
  larger than that of every INVITE and INFO sent before it. (A CANCEL is outside this
  order: it repeats the number of the retained INVITE.)
\<close>

theorem dialog_sequence_numbers:
  assumes "runCall dg s cid evs (placedCall s cid tg branch t0 dest) = (call, out)"
  shows "\<forall>i j. i < j \<and> j < length out
           \<and> (hasMethod ''INVITE'' (out ! i) \<or> hasMethod ''INFO'' (out ! i))
           \<and> (hasMethod ''INVITE'' (out ! j) \<or> hasMethod ''INFO'' (out ! j)
                \<or> hasMethod ''BYE'' (out ! j))
         \<longrightarrow> seqOf (out ! i) < seqOf (out ! j)"
proof -
  have "callInv (call, out)"
    using runCall_keeps_callInv [OF placedCall_callInv, of dg s cid evs s cid tg branch t0 dest]
      assms by simp
  then have "sorted_wrt seqBefore out" by (auto simp: callInv_def)
  then have "\<forall>i j. i < j \<longrightarrow> j < length out \<longrightarrow> seqBefore (out ! i) (out ! j)"
    by (simp add: sorted_wrt_iff_nth_less)
  then show ?thesis by (auto simp: seqBefore_def counted_def)
qed

theorem dialog_sequence_numbers_witness:
  "seqOf (snd demoRun ! 0) < seqOf (snd demoRun ! 2)
   \<and> seqOf (snd demoRun ! 2) < seqOf (snd demoRun ! 3)"
proof -
  let ?out = "snd demoRun"
  have run: "runCall demoDigest registeredService ''c1''
       [(True, 1001, InviteSent None),
        (True, 1500, Response (demoResponse 200 ''c1'' ''INVITE'' 1)),
        (True, 1600, DTMF ''5''),
        (True, 2000, Hangup)]
       (placedCall registeredService ''c1'' ''t1'' ''b1'' 1000 ''+1 (555) 012-3456'')
     = (fst demoRun, ?out)"
    by (simp add: demoRun_def)
  have len: "length ?out = 4"
  proof -
    have "length (map m_method ?out) = 4" by (simp add: demoRun_facts(1))
    then show ?thesis by simp
  qed
  have nth: "k < 4 \<Longrightarrow> m_method (?out ! k) = map m_method ?out ! k" for k
    by (simp add: len)
  have meth: "m_method (?out ! 0) = Some ''INVITE''" "m_method (?out ! 2) = Some ''INFO''"
    "m_method (?out ! 3) = Some ''BYE''"
    using nth [of 0] nth [of 2] nth [of 3] by (simp_all add: demoRun_facts(1))
  from dialog_sequence_numbers [OF run] len meth show ?thesis
    by (simp add: hasMethod_def)
qed

text \<open>Not every later request carries a larger number: the CANCEL that follows the
  re-authenticated INVITE repeats its number 2.\<close>

theorem cancel_repeats_invite_sequence:
  "map m_method (sent cancelledService)
     = [Some ''REGISTER'', Some ''INVITE'', Some ''INVITE'', Some ''CANCEL'']
   \<and> map seqOf (sent cancelledService) = [1, 1, 2, 2]"
proof -
  obtain call d invite where c: "activeCalls reinvitedService = [(''c1'', call)]"
    "status call = Ringing" "dialog call = Some d" "lastResponse d = None"
    "inviteRequest d = Some invite" "seqOf invite = 2"
    using reinvitedService_c1 by blast
  then show ?thesis
    by (simp add: cancelledService_def hangup_def hangupCall_def reinvitedService_facts
        cancelRequestOf_def seqOf_def)
qed

section \<open>What every run of the service keeps\<close>


lemma update_nonempty: "AList.update k v al \<noteq> []"
  by (cases al) auto





















section \<open>hangup in every state a run reaches\<close>




section \<open>The registration timer after its retry\<close>

lemma fire_initializedService:
  "fireTimer demoDigest demoEnv k ''u1'' ''u2'' initializedService
     = (if k = 0 then retriedService else initializedService)"
  by (simp add: retriedService_def) (simp add: fireTimer_def initializedService_facts)

lemma fire_retriedService:
  "fireTimer demoDigest demoEnv k ''u1'' ''u2'' retriedService = retriedService"
  by (simp add: fireTimer_def retriedService_facts)

lemma timerFirings_states:
  "s = initializedService \<or> s = retriedService
     \<Longrightarrow> timerFirings ks s = initializedService \<or> timerFirings ks s = retriedService"
proof (induction ks arbitrary: s)
  case Nil
  then show ?case by (simp add: timerFirings_def)
next
  case (Cons k ks)
  have "fireTimer demoDigest demoEnv k ''u1'' ''u2'' s = initializedService
        \<or> fireTimer demoDigest demoEnv k ''u1'' ''u2'' s = retriedService"
    using Cons.prems by (auto simp: fire_initializedService fire_retriedService)
  from Cons.IH [OF this] show ?case by (simp add: timerFirings_def)
qed

text \<open>
  C9 (the code at a failing input). \<open>initialize\<close> arms the only timer. When it fires
  with no response received, the retry is issued (attempt 2 of 3) and no timer is armed
  again: \<open>register\<close> arms none. From then on nothing can fire, so whatever timers fire
  after one \<open>initialize\<close>, the attempts stay below the maximum and the promise stays
  pending: the timeout never rejects it.
\<close>

theorem retry_arms_no_timer:
  "timers initializedService = [(0, 20000)]
   \<and> timers retriedService = []
   \<and> registrationAttempts retriedService = 2
   \<and> maxRegistrationAttempts retriedService = 3
   \<and> registered retriedService = False
   \<and> p_state (promises retriedService ! 0) = Pending
   \<and> (\<forall>ks. p_state (promises (timerFirings ks initializedService) ! 0) = Pending
          \<and> registrationAttempts (timerFirings ks initializedService)
              < maxRegistrationAttempts (timerFirings ks initializedService)
          \<and> registered (timerFirings ks initializedService) = False)"
proof -
  have "p_state (promises (timerFirings ks initializedService) ! 0) = Pending
          \<and> registrationAttempts (timerFirings ks initializedService)
              < maxRegistrationAttempts (timerFirings ks initializedService)
          \<and> registered (timerFirings ks initializedService) = False" for ks
    using timerFirings_states [of initializedService ks]
    by (auto simp: initializedService_facts retriedService_facts)
  then show ?thesis
    by (simp add: initializedService_facts retriedService_facts)
qed

end
